theory Spec2Isabelle
  imports Complex_Main "HOL-Library.Word"
begin

section \<open>Values shared by both revisions of main.go\<close>

text \<open>
  A \<open>time.Time\<close> is modelled by its instant, an integer number of seconds: every
  timestamp of the program comes from \<open>time.Parse\<close> with the one layout
  \<open>2006-01-02T15:04:05Z\<close>, so all of them are UTC values without a monotonic reading,
  on which \<open>==\<close> (used by the map keys), \<open>After\<close> and \<open>Before\<close> compare instants.
  \<open>float64\<close> is kept abstract as the type parameter \<open>'f\<close>; only its zero value, its
  addition and its comparison with zero are used by the code.
\<close>

type_synonym time = int

definition zero_time :: time where
  "zero_time = - 62135596800"

definition After :: "time \<Rightarrow> time \<Rightarrow> bool" where
  "After t u = (u < t)"

datatype log_entry = AlreadyExists "64 word" | UnsupportedField string

text \<open>The receiver of a method together with the lines the global \<open>logger\<close> has printed.\<close>

record 'r state =
  receiver :: 'r
  logger :: "log_entry list"

text \<open>\<open>copy(xs[d:], xs[s:])\<close> inside one slice (a memmove of \<open>min (len - d) (len - s)\<close> elements).\<close>

definition go_copy :: "'a list \<Rightarrow> nat \<Rightarrow> nat \<Rightarrow> 'a list" where
  "go_copy xs d s =
     (let k = min (length xs - d) (length xs - s)
      in take d xs @ take k (drop s xs) @ drop (d + k) xs)"

text \<open>
  The backward scan \<open>for j := len(ts) - 1; j >= 0; j--\<close> for the first \<open>j\<close> with
  \<open>start.After(ts[j])\<close>; the third argument is \<open>j + 1\<close>.
\<close>

fun scan_back :: "time \<Rightarrow> time list \<Rightarrow> nat \<Rightarrow> nat option" where
  "scan_back start ts 0 = None"
| "scan_back start ts (Suc j) =
     (if After start (ts ! j) then Some j else scan_back start ts j)"

definition insert_TimePt :: "time \<Rightarrow> time list \<Rightarrow> time list" where
  "insert_TimePt start ts =
     (case scan_back start ts (length ts) of
        Some j \<Rightarrow>
          if j = length ts - 1 then ts @ [start]
          else (go_copy (ts @ [zero_time]) (j + 2) (j + 1)) [j + 1 := start]
      | None \<Rightarrow> (go_copy (ts @ [zero_time]) 1 0) [0 := start])"


subsection \<open>Library functions\<close>

text \<open>\<open>strings.Split(s, sep)\<close> for a one-byte separator, \<open>strings.Join\<close>.\<close>

fun Split :: "string \<Rightarrow> char \<Rightarrow> string list" where
  "Split [] c = [[]]"
| "Split (x # xs) c =
     (if x = c then [] # Split xs c
      else (case Split xs c of p # ps \<Rightarrow> (x # p) # ps | [] \<Rightarrow> [[x]]))"

fun Join :: "string list \<Rightarrow> string \<Rightarrow> string" where
  "Join [] sep = []"
| "Join [a] sep = a"
| "Join (a # b # cs) sep = a @ sep @ Join (b # cs) sep"

datatype NumError = ErrSyntax | ErrRange

text \<open>
  \<open>strconv.ParseUint(s, 10, 64)\<close>: the empty string is a syntax error; the digits are
  read from the left, a byte that is no decimal digit (a sign, an underscore) is a syntax
  error, and a value that leaves 64 bits is a range error, returned with the largest value
  as soon as it is reached.
\<close>

fun ParseUint_digits :: "string \<Rightarrow> nat \<Rightarrow> 64 word \<times> NumError option" where
  "ParseUint_digits [] n = (word_of_nat n, None)"
| "ParseUint_digits (c # cs) n =
     (if 48 \<le> (of_char c :: nat) \<and> (of_char c :: nat) \<le> 57
      then (let n1 = n * 10 + (of_char c - 48)
            in if 2 ^ 64 \<le> n1 then (- 1, Some ErrRange) else ParseUint_digits cs n1)
      else (0, Some ErrSyntax))"

definition ParseUint :: "string \<Rightarrow> 64 word \<times> NumError option" where
  "ParseUint s = (if s = [] then (0, Some ErrSyntax) else ParseUint_digits s 0)"

text \<open>\<open>strconv.FormatUint(x, 10)\<close>.\<close>

function decimal :: "nat \<Rightarrow> string" where
  "decimal n = (if n < 10 then [char_of (48 + n)]
                else decimal (n div 10) @ [char_of (48 + n mod 10)])"
  by pat_completeness auto
termination
  by (relation "measure id") auto

definition FormatUint :: "64 word \<Rightarrow> string" where
  "FormatUint x = decimal (unat x)"

text \<open>
  The functions of other packages whose code is not part of the program are parameters:
  \<open>xxhash.Sum64String\<close>, \<open>time.Parse\<close> (layout, value; \<open>None\<close> is an error) and
  \<open>strconv.ParseFloat(s, 64)\<close>, which returns a value also when it returns an error.
\<close>

text \<open>Functions of five and of seven string arguments.\<close>

type_synonym 'a strings5 = "string \<Rightarrow> string \<Rightarrow> string \<Rightarrow> string \<Rightarrow> string \<Rightarrow> 'a"

type_synonym 'a strings7 =
  "string \<Rightarrow> string \<Rightarrow> string \<Rightarrow> string \<Rightarrow> string \<Rightarrow> string \<Rightarrow> string \<Rightarrow> 'a"

record 'f library =
  Sum64String :: "string \<Rightarrow> 64 word"
  time_Parse :: "string \<Rightarrow> string \<Rightarrow> time option"
  ParseFloat :: "string \<Rightarrow> 'f \<times> NumError option"

definition timeLayout :: string where
  "timeLayout = ''2006-01-02T15:04:05Z''"

datatype error =
    Invalid_time_interval string
  | Could_not_parse_start_interval
  | Coult_not_parse_end_interval
  | Could_not_parse string
  | Unable_to_parse_PayerAccountID string

datatype panic = IndexOutOfRange | NilPointerDereference

datatype 'a outcome = is_Return: Return (returned: 'a) | Fail error | Panic panic

text \<open>
  The header index of a report: \<open>headerIdx[header] = i\<close> for each header in turn, and
  \<open>headerIdx[name]\<close>, which is 0 for a name that is no header.
\<close>

definition header_index :: "string list \<Rightarrow> (string \<rightharpoonup> nat)" where
  "header_index headers =
     foldl (\<lambda>m (i, header). m(header \<mapsto> i)) Map.empty (zip [0..<length headers] headers)"

definition column :: "(string \<rightharpoonup> nat) \<Rightarrow> string \<Rightarrow> nat" where
  "column headerIdx name = (case headerIdx name of None \<Rightarrow> 0 | Some i \<Rightarrow> i)"

text \<open>
  \<open>parts[headerIdx[name]]\<close> panics when the index is out of range; \<open>in_range\<close> is the
  check that none of the reads of one call does, \<open>cell\<close> the read.
\<close>

definition in_range :: "(string \<rightharpoonup> nat) \<Rightarrow> string list \<Rightarrow> string list \<Rightarrow> bool" where
  "in_range headerIdx parts names = list_all (\<lambda>name. column headerIdx name < length parts) names"

definition cell :: "(string \<rightharpoonup> nat) \<Rightarrow> string list \<Rightarrow> string \<Rightarrow> string" where
  "cell headerIdx parts name = parts ! column headerIdx name"

record Bill =
  BillingEntity :: string
  BillType :: string
  InvoiceID :: string
  PayerAccountID :: "64 word"
  BillingPeriodEndDate :: time
  BillingPeriodStartDate :: time


definition new_Bill :: Bill where
  "new_Bill = \<lparr>BillingEntity = [], BillType = [], InvoiceID = [], PayerAccountID = 0,
               BillingPeriodEndDate = zero_time, BillingPeriodStartDate = zero_time\<rparr>"

definition NewBill :: "'f library \<Rightarrow> string \<Rightarrow> string \<Rightarrow> string \<Rightarrow> string \<Rightarrow> string \<Rightarrow> string
    \<Rightarrow> error + Bill" where
  "NewBill lib entity billType invoiceID payerAccountID start end' =
     (case ParseUint payerAccountID of
        (_, Some _) \<Rightarrow> Inl (Unable_to_parse_PayerAccountID payerAccountID)
      | (n, None) \<Rightarrow>
     (case time_Parse lib timeLayout start of
        None \<Rightarrow> Inl Could_not_parse_start_interval
      | Some t0 \<Rightarrow>
     (case time_Parse lib timeLayout end' of
        None \<Rightarrow> Inl Coult_not_parse_end_interval
      | Some t1 \<Rightarrow>
          Inr (new_Bill\<lparr>PayerAccountID := n, BillingPeriodStartDate := t0,
                        BillingPeriodEndDate := t1, BillingEntity := entity,
                        BillType := billType, InvoiceID := invoiceID\<rparr>))))"

definition bill_columns :: "string list" where
  "bill_columns = [''bill/Entity'', ''bill/BillType'', ''bill/InvoiceId'', ''bill/PayerAccountId'',
     ''bill/BillingPeriodStartDate'', ''bill/BillingPeriodEndDate'']"

definition row_Bill :: "'f library \<Rightarrow> (string \<rightharpoonup> nat) \<Rightarrow> string list \<Rightarrow> Bill outcome" where
  "row_Bill lib headerIdx parts =
     (if \<not> in_range headerIdx parts bill_columns then Panic IndexOutOfRange
      else case NewBill lib
                  (cell headerIdx parts ''bill/Entity'')
                  (cell headerIdx parts ''bill/BillType'')
                  (cell headerIdx parts ''bill/InvoiceId'')
                  (cell headerIdx parts ''bill/PayerAccountId'')
                  (cell headerIdx parts ''bill/BillingPeriodStartDate'')
                  (cell headerIdx parts ''bill/BillingPeriodEndDate'') of
             Inl e \<Rightarrow> Fail e
           | Inr b \<Rightarrow> Return b)"

section \<open>First revision: Identity and LineItemID\<close>

record 'f LineItem0 =
  AvailabilityZone :: string
  BlendedCost :: 'f
  BlendedRate :: 'f
  CurrencyCode :: string
  LegalEntity :: string
  LineItemDescription :: string
  LineItemType :: string
  NormalizationFactor :: 'f
  Operation :: string
  ProductCode :: string
  ResourceID :: string
  TaxType :: string
  UnblendedCost :: 'f
  UnblendedRate :: 'f
  UsageAccountID :: string
  UsageAmount :: int
  UsageEndDate :: time
  UsageStartDate :: time
  UsageType :: string

record 'f LineItemID =
  UID :: "64 word"
  Start :: time
  End :: time
  Bill :: "Bill option"
  LineItem :: "'f LineItem0 option"

record 'f Identity =
  LineItemIDs :: "time \<rightharpoonup> 'f LineItemID list"
  TimePts :: "time list"

definition NewIdentity :: "'f Identity" where
  "NewIdentity = \<lparr>LineItemIDs = Map.empty, TimePts = []\<rparr>"

text \<open>\<open>for _, lid := range lids { if lid.UID == l.UID { ...; return } }\<close>\<close>

fun has_UID0 :: "64 word \<Rightarrow> 'f LineItemID list \<Rightarrow> bool" where
  "has_UID0 u [] = False"
| "has_UID0 u (lid # lids) = (if UID lid = u then True else has_UID0 u lids)"

text \<open>
  In this revision \<open>lids = append(lids, l)\<close> assigns the local variable only: the slice
  stored in the map keeps its length, so the bucket read back from the map is unchanged.
\<close>

definition AddLineItemID :: "'f LineItemID \<Rightarrow> 'f Identity state \<Rightarrow> 'f Identity state" where
  "AddLineItemID l st =
     (let i = receiver st in
      case LineItemIDs i (Start l) of
        Some lids \<Rightarrow>
          if has_UID0 (UID l) lids
          then st\<lparr>logger := logger st @ [AlreadyExists (UID l)]\<rparr>
          else (let lids' = lids @ [l] in st)
      | None \<Rightarrow>
          st\<lparr>receiver := i\<lparr>LineItemIDs := (LineItemIDs i)(Start l \<mapsto> [l]),
                              TimePts := insert_TimePt (Start l) (TimePts i)\<rparr>\<rparr>)"


definition new_LineItem0 :: "'f::zero LineItem0" where
  "new_LineItem0 =
     \<lparr>AvailabilityZone = [], BlendedCost = 0, BlendedRate = 0, CurrencyCode = [],
      LegalEntity = [], LineItemDescription = [], LineItemType = [], NormalizationFactor = 0,
      Operation = [], ProductCode = [], ResourceID = [], TaxType = [], UnblendedCost = 0,
      UnblendedRate = 0, UsageAccountID = [], UsageAmount = 0, UsageEndDate = zero_time,
      UsageStartDate = zero_time, UsageType = []\<rparr>"

definition NewLineItem0 :: "'f::zero library
    \<Rightarrow> (error + 'f LineItem0) strings5 strings7 strings7" where
  "NewLineItem0 lib az blendedCost blendedRate currencyCode legalEntity lineItemDescription lineItemType normalizationFactor operation productCode resourceID taxType unblendedCost unblendedRate usageAccountID usageAmount start end' usageType =
     (let l = new_LineItem0 in
      case ParseFloat lib blendedCost of
        (_, Some _) \<Rightarrow> Inl (Could_not_parse ''blendedCost'')
      | (bc, None) \<Rightarrow>
     (case ParseFloat lib blendedRate of
        (_, Some _) \<Rightarrow> Inl (Could_not_parse ''blendedRate'')
      | (br, None) \<Rightarrow>
     (case ParseFloat lib normalizationFactor of (nf, err) \<Rightarrow>
      if err \<noteq> None \<and> normalizationFactor \<noteq> [] then Inl (Could_not_parse ''normalizationFactor'')
      else
     (case ParseFloat lib unblendedCost of
        (_, Some _) \<Rightarrow> Inl (Could_not_parse ''unblendedCost'')
      | (uc, None) \<Rightarrow>
     (case ParseFloat lib unblendedRate of (ur, err) \<Rightarrow>
      if err \<noteq> None \<and> unblendedRate \<noteq> [] then Inl (Could_not_parse ''unblendedRate'')
      else
     (case time_Parse lib timeLayout start of
        None \<Rightarrow> Inl Could_not_parse_start_interval
      | Some usd \<Rightarrow>
     (case time_Parse lib timeLayout end' of
        None \<Rightarrow> Inl Coult_not_parse_end_interval
      | Some ued \<Rightarrow>
          Inr (l\<lparr>BlendedCost := bc, BlendedRate := br, NormalizationFactor := nf,
                 UnblendedCost := uc, UnblendedRate := ur, UsageStartDate := usd,
                 UsageEndDate := ued, CurrencyCode := currencyCode,
                 LegalEntity := legalEntity, LineItemDescription := lineItemDescription,
                 LineItemType := lineItemType, Operation := operation,
                 ProductCode := productCode, ResourceID := resourceID,
                 TaxType := taxType\<rparr>))))))))"

definition NewLineItemID :: "'f library \<Rightarrow> string \<Rightarrow> string \<Rightarrow> error + 'f LineItemID" where
  "NewLineItemID lib id' timeInterval =
     (let timeIntStr = Split timeInterval CHR ''/'' in
      if length timeIntStr \<noteq> 2 then Inl (Invalid_time_interval timeInterval)
      else
     (case time_Parse lib timeLayout (timeIntStr ! 0) of
        None \<Rightarrow> Inl Could_not_parse_start_interval
      | Some t0 \<Rightarrow>
     (case time_Parse lib timeLayout (timeIntStr ! 1) of
        None \<Rightarrow> Inl Coult_not_parse_end_interval
      | Some t1 \<Rightarrow>
          Inr \<lparr>UID = Sum64String lib id', Start = t0, End = t1, Bill = None,
               LineItem = None\<rparr>)))"

definition lineItem0_columns :: "string list" where
  "lineItem0_columns = [''lineItem/AvailabilityZone'', ''lineItem/BlendedCost'',
     ''lineItem/BlendedCost'', ''lineItem/CurrencyCode'', ''lineItem/LegalEntity'',
     ''lineItem/LineItemDescription'', ''lineItem/LineItemType'',
     ''lineItem/NormalizationFactor'', ''lineItem/Operation'', ''lineItem/ProductCode'',
     ''lineItem/ResourceId'', ''lineItem/TaxType'', ''lineItem/UnblendedCost'',
     ''lineItem/UnblendedRate'', ''lineItem/UsageAccountId'', ''lineItem/UsageAmount'',
     ''lineItem/UsageStartDate'', ''lineItem/UsageEndDate'', ''lineItem/UsageType'']"

text \<open>One turn of the loop of the first \<open>main\<close>, up to the call of \<open>AddLineItemID\<close>.\<close>

definition row_LineItemID :: "'f::zero library \<Rightarrow> (string \<rightharpoonup> nat) \<Rightarrow> string list
    \<Rightarrow> 'f LineItemID outcome" where
  "row_LineItemID lib headerIdx parts =
     (if \<not> in_range headerIdx parts [''identity/LineItemId'', ''identity/TimeInterval'']
      then Panic IndexOutOfRange
      else case NewLineItemID lib (cell headerIdx parts ''identity/LineItemId'')
                  (cell headerIdx parts ''identity/TimeInterval'') of
        Inl e \<Rightarrow> Fail e
      | Inr l \<Rightarrow>
     (case row_Bill lib headerIdx parts of
        Panic p \<Rightarrow> Panic p
      | Fail e \<Rightarrow> Fail e
      | Return b \<Rightarrow>
     (let l = l\<lparr>Bill := Some b\<rparr> in
      if \<not> in_range headerIdx parts lineItem0_columns then Panic IndexOutOfRange
      else case NewLineItem0 lib
                  (cell headerIdx parts ''lineItem/AvailabilityZone'')
                  (cell headerIdx parts ''lineItem/BlendedCost'')
                  (cell headerIdx parts ''lineItem/BlendedCost'')
                  (cell headerIdx parts ''lineItem/CurrencyCode'')
                  (cell headerIdx parts ''lineItem/LegalEntity'')
                  (cell headerIdx parts ''lineItem/LineItemDescription'')
                  (cell headerIdx parts ''lineItem/LineItemType'')
                  (cell headerIdx parts ''lineItem/NormalizationFactor'')
                  (cell headerIdx parts ''lineItem/Operation'')
                  (cell headerIdx parts ''lineItem/ProductCode'')
                  (cell headerIdx parts ''lineItem/ResourceId'')
                  (cell headerIdx parts ''lineItem/TaxType'')
                  (cell headerIdx parts ''lineItem/UnblendedCost'')
                  (cell headerIdx parts ''lineItem/UnblendedRate'')
                  (cell headerIdx parts ''lineItem/UsageAccountId'')
                  (cell headerIdx parts ''lineItem/UsageAmount'')
                  (cell headerIdx parts ''lineItem/UsageStartDate'')
                  (cell headerIdx parts ''lineItem/UsageEndDate'')
                  (cell headerIdx parts ''lineItem/UsageType'') of
             Inl e \<Rightarrow> Fail e
           | Inr li \<Rightarrow> Return (l\<lparr>LineItem := Some li\<rparr>))))"

text \<open>
  The loop \<open>for scanner.Scan()\<close> of the first \<open>main\<close> over the rows the scanner yields;
  \<open>logger.Fatal\<close> ends the run with the error.
\<close>

fun main0_rows :: "'f::zero library \<Rightarrow> (string \<rightharpoonup> nat) \<Rightarrow> string list \<Rightarrow> 'f Identity state
    \<Rightarrow> 'f Identity state outcome" where
  "main0_rows lib headerIdx [] st = Return st"
| "main0_rows lib headerIdx (row # rows) st =
     (case row_LineItemID lib headerIdx (Split row CHR '','') of
        Panic p \<Rightarrow> Panic p
      | Fail e \<Rightarrow> Fail e
      | Return l \<Rightarrow> main0_rows lib headerIdx rows (AddLineItemID l st))"

text \<open>
  The first \<open>main\<close> on the lines of the decompressed file: the first line holds the
  headers (\<open>scanner.Text()\<close> is empty when there is none).
\<close>

definition main0 :: "'f::zero library \<Rightarrow> string list \<Rightarrow> log_entry list
    \<Rightarrow> 'f Identity state outcome" where
  "main0 lib lines lg =
     (let headers = Split (case lines of [] \<Rightarrow> [] | h # _ \<Rightarrow> h) CHR '','';
          headerIdx = header_index headers;
          identity = NewIdentity
      in main0_rows lib headerIdx (tl lines) \<lparr>receiver = identity, logger = lg\<rparr>)"

text \<open>A sample value of the first revision, with \<open>real\<close> for \<open>float64\<close>.\<close>

definition sample_id :: "nat \<Rightarrow> time \<Rightarrow> time \<Rightarrow> real LineItemID" where
  "sample_id u s e = \<lparr>UID = of_nat u, Start = s, End = e, Bill = None, LineItem = None\<rparr>"


section \<open>Second revision: Report\<close>

record 'f LineItem =
  UID :: "64 word"
  Start :: time
  End :: time
  AvailabilityZone :: string
  BlendedCost :: 'f
  BlendedRate :: 'f
  CurrencyCode :: string
  LegalEntity :: string
  LineItemDescription :: string
  LineItemType :: string
  NormalizationFactor :: 'f
  Operation :: string
  ProductCode :: string
  ResourceID :: string
  TaxType :: string
  UnblendedCost :: 'f
  UnblendedRate :: 'f
  UsageAccountID :: string
  UsageAmount :: int
  UsageEndDate :: time
  UsageStartDate :: time
  UsageType :: string
  Bill :: "Bill option"

record 'f Report =
  LineItems :: "time \<rightharpoonup> 'f LineItem list"
  TimePts :: "time list"

definition empty_Report :: "'f Report" where
  "empty_Report = \<lparr>LineItems = Map.empty, TimePts = []\<rparr>"

fun has_UID :: "64 word \<Rightarrow> 'f LineItem list \<Rightarrow> bool" where
  "has_UID u [] = False"
| "has_UID u (lid # lids) = (if UID lid = u then True else has_UID u lids)"

definition AddLineItem :: "'f LineItem \<Rightarrow> 'f Report state \<Rightarrow> 'f Report state" where
  "AddLineItem l st =
     (let r = receiver st in
      case LineItems r (Start l) of
        Some lids \<Rightarrow>
          if has_UID (UID l) lids
          then st\<lparr>logger := logger st @ [AlreadyExists (UID l)]\<rparr>
          else st\<lparr>receiver := r\<lparr>LineItems := (LineItems r)(Start l \<mapsto> lids @ [l])\<rparr>\<rparr>
      | None \<Rightarrow>
          st\<lparr>receiver := r\<lparr>LineItems := (LineItems r)(Start l \<mapsto> [l]),
                              TimePts := insert_TimePt (Start l) (TimePts r)\<rparr>\<rparr>)"

definition new_LineItem :: "'f::zero LineItem" where
  "new_LineItem =
     \<lparr>UID = 0, Start = zero_time, End = zero_time,
      AvailabilityZone = [], BlendedCost = 0, BlendedRate = 0, CurrencyCode = [],
      LegalEntity = [], LineItemDescription = [], LineItemType = [], NormalizationFactor = 0,
      Operation = [], ProductCode = [], ResourceID = [], TaxType = [], UnblendedCost = 0,
      UnblendedRate = 0, UsageAccountID = [], UsageAmount = 0, UsageEndDate = zero_time,
      UsageStartDate = zero_time, UsageType = [], Bill = None\<rparr>"

definition NewLineItem :: "'f::zero library
    \<Rightarrow> (error + 'f LineItem) strings7 strings7 strings7" where
  "NewLineItem lib id' timeInterval az blendedCost blendedRate currencyCode legalEntity lineItemDescription lineItemType normalizationFactor operation productCode resourceID taxType unblendedCost unblendedRate usageAccountID usageAmount usageStart usageEnd usageType =
     (let timeIntStr = Split timeInterval CHR ''/'' in
      if length timeIntStr \<noteq> 2 then Inl (Invalid_time_interval timeInterval)
      else
      case time_Parse lib timeLayout (timeIntStr ! 0) of
        None \<Rightarrow> Inl Could_not_parse_start_interval
      | Some t0 \<Rightarrow>
     (case time_Parse lib timeLayout (timeIntStr ! 1) of
        None \<Rightarrow> Inl Coult_not_parse_end_interval
      | Some t1 \<Rightarrow>
     (let l = new_LineItem\<lparr>UID := Sum64String lib id', Start := t0, End := t1\<rparr> in
      case ParseFloat lib blendedCost of
        (_, Some _) \<Rightarrow> Inl (Could_not_parse ''blendedCost'')
      | (bc, None) \<Rightarrow>
     (case ParseFloat lib blendedRate of
        (_, Some _) \<Rightarrow> Inl (Could_not_parse ''blendedRate'')
      | (br, None) \<Rightarrow>
     (case ParseFloat lib normalizationFactor of (nf, err) \<Rightarrow>
      if err \<noteq> None \<and> normalizationFactor \<noteq> [] then Inl (Could_not_parse ''normalizationFactor'')
      else
     (case ParseFloat lib unblendedCost of
        (_, Some _) \<Rightarrow> Inl (Could_not_parse ''unblendedCost'')
      | (uc, None) \<Rightarrow>
     (case ParseFloat lib unblendedRate of (ur, err) \<Rightarrow>
      if err \<noteq> None \<and> unblendedRate \<noteq> [] then Inl (Could_not_parse ''unblendedRate'')
      else
     (case time_Parse lib timeLayout usageStart of
        None \<Rightarrow> Inl Could_not_parse_start_interval
      | Some usd \<Rightarrow>
     (case time_Parse lib timeLayout usageEnd of
        None \<Rightarrow> Inl Coult_not_parse_end_interval
      | Some ued \<Rightarrow>
          Inr (l\<lparr>BlendedCost := bc, BlendedRate := br, NormalizationFactor := nf,
                 UnblendedCost := uc, UnblendedRate := ur, UsageStartDate := usd,
                 UsageEndDate := ued, CurrencyCode := currencyCode,
                 LegalEntity := legalEntity, LineItemDescription := lineItemDescription,
                 LineItemType := lineItemType, Operation := operation,
                 ProductCode := productCode, ResourceID := resourceID,
                 TaxType := taxType\<rparr>))))))))))"

definition lineItem_columns :: "string list" where
  "lineItem_columns = [''identity/LineItemId'', ''identity/TimeInterval'',
     ''lineItem/AvailabilityZone'', ''lineItem/BlendedCost'',
     ''lineItem/BlendedCost'', ''lineItem/CurrencyCode'', ''lineItem/LegalEntity'',
     ''lineItem/LineItemDescription'', ''lineItem/LineItemType'',
     ''lineItem/NormalizationFactor'', ''lineItem/Operation'', ''lineItem/ProductCode'',
     ''lineItem/ResourceId'', ''lineItem/TaxType'', ''lineItem/UnblendedCost'',
     ''lineItem/UnblendedRate'', ''lineItem/UsageAccountId'', ''lineItem/UsageAmount'',
     ''lineItem/UsageStartDate'', ''lineItem/UsageEndDate'', ''lineItem/UsageType'']"

text \<open>One turn of the loop of \<open>NewReport\<close>, up to the call of \<open>AddLineItem\<close>.\<close>

definition row_LineItem :: "'f::zero library \<Rightarrow> (string \<rightharpoonup> nat) \<Rightarrow> string list
    \<Rightarrow> 'f LineItem outcome" where
  "row_LineItem lib headerIdx parts =
     (if \<not> in_range headerIdx parts lineItem_columns then Panic IndexOutOfRange
      else case NewLineItem lib
                  (cell headerIdx parts ''identity/LineItemId'')
                  (cell headerIdx parts ''identity/TimeInterval'')
                  (cell headerIdx parts ''lineItem/AvailabilityZone'')
                  (cell headerIdx parts ''lineItem/BlendedCost'')
                  (cell headerIdx parts ''lineItem/BlendedCost'')
                  (cell headerIdx parts ''lineItem/CurrencyCode'')
                  (cell headerIdx parts ''lineItem/LegalEntity'')
                  (cell headerIdx parts ''lineItem/LineItemDescription'')
                  (cell headerIdx parts ''lineItem/LineItemType'')
                  (cell headerIdx parts ''lineItem/NormalizationFactor'')
                  (cell headerIdx parts ''lineItem/Operation'')
                  (cell headerIdx parts ''lineItem/ProductCode'')
                  (cell headerIdx parts ''lineItem/ResourceId'')
                  (cell headerIdx parts ''lineItem/TaxType'')
                  (cell headerIdx parts ''lineItem/UnblendedCost'')
                  (cell headerIdx parts ''lineItem/UnblendedRate'')
                  (cell headerIdx parts ''lineItem/UsageAccountId'')
                  (cell headerIdx parts ''lineItem/UsageAmount'')
                  (cell headerIdx parts ''lineItem/UsageStartDate'')
                  (cell headerIdx parts ''lineItem/UsageEndDate'')
                  (cell headerIdx parts ''lineItem/UsageType'') of
        Inl e \<Rightarrow> Fail e
      | Inr l \<Rightarrow>
     (case row_Bill lib headerIdx parts of
        Panic p \<Rightarrow> Panic p
      | Fail e \<Rightarrow> Fail e
      | Return b \<Rightarrow> Return (l\<lparr>Bill := Some b\<rparr>)))"

fun NewReport_rows :: "'f::zero library \<Rightarrow> (string \<rightharpoonup> nat) \<Rightarrow> string list \<Rightarrow> 'f Report state
    \<Rightarrow> 'f Report state outcome" where
  "NewReport_rows lib headerIdx [] st = Return st"
| "NewReport_rows lib headerIdx (row # rows) st =
     (case row_LineItem lib headerIdx (Split row CHR '','') of
        Panic p \<Rightarrow> Panic p
      | Fail e \<Rightarrow> Fail e
      | Return l \<Rightarrow> NewReport_rows lib headerIdx rows (AddLineItem l st))"

text \<open>
  \<open>NewReport\<close> on the lines of the decompressed file (opening, decompressing and closing
  the file are the operating system's part and are left out).
\<close>

definition NewReport :: "'f::zero library \<Rightarrow> string list \<Rightarrow> log_entry list
    \<Rightarrow> 'f Report state outcome" where
  "NewReport lib lines lg =
     (let r = empty_Report;
          headers = Split (case lines of [] \<Rightarrow> [] | h # _ \<Rightarrow> h) CHR '','';
          headerIdx = header_index headers
      in NewReport_rows lib headerIdx (tl lines) \<lparr>receiver = r, logger = lg\<rparr>)"

subsection \<open>Queries\<close>

text \<open>\<open>r.LineItems[t]\<close> read as a slice: the nil slice for a missing key.\<close>

definition bucket :: "'f Report \<Rightarrow> time \<Rightarrow> 'f LineItem list" where
  "bucket r t = (case LineItems r t of None \<Rightarrow> [] | Some items \<Rightarrow> items)"

text \<open>The first loop of \<open>FilterByTime\<close>: the index of the first time point after \<open>e\<close>,
  the length when there is none.\<close>

fun endIdx_scan :: "time \<Rightarrow> time list \<Rightarrow> nat" where
  "endIdx_scan e [] = 0"
| "endIdx_scan e (itemStart # ts) = (if After itemStart e then 0 else Suc (endIdx_scan e ts))"

definition FilterByTime :: "time \<Rightarrow> time \<Rightarrow> 'f Report state \<Rightarrow> 'f LineItem list \<times> 'f Report state" where
  "FilterByTime s e st =
     (let r = receiver st;
          endIdx = endIdx_scan e (TimePts r);
          l = foldl (\<lambda>l i. foldl (\<lambda>l item. if After (End item) s then l @ [item] else l)
                               l (bucket r (TimePts r ! i)))
                    [] [0..<endIdx]
      in (l, st))"

text \<open>The inner loop of \<open>GroupBy\<close> over the requested fields, for one item;
  \<open>item.Bill.PayerAccountID\<close> panics on a nil \<open>Bill\<close>.\<close>

fun keyParts_loop :: "'f LineItem \<Rightarrow> string list \<Rightarrow> string list \<Rightarrow> 'r state
    \<Rightarrow> string list outcome \<times> 'r state" where
  "keyParts_loop item [] keyParts st = (Return keyParts, st)"
| "keyParts_loop item (field # fields') keyParts st =
     (if field = ''lineItem/LineItemType''
        then keyParts_loop item fields' (keyParts @ [LineItemType item]) st
      else if field = ''lineItem/Operation''
        then keyParts_loop item fields' (keyParts @ [Operation item]) st
      else if field = ''lineItem/ProductCode''
        then keyParts_loop item fields' (keyParts @ [ProductCode item]) st
      else if field = ''lineItem/ResourceId''
        then keyParts_loop item fields' (keyParts @ [ResourceID item]) st
      else if field = ''lineItem/TaxType''
        then keyParts_loop item fields' (keyParts @ [TaxType item]) st
      else if field = ''lineItem/UsageAccountId''
        then keyParts_loop item fields' (keyParts @ [UsageAccountID item]) st
      else if field = ''lineItem/UsageType''
        then keyParts_loop item fields' (keyParts @ [UsageType item]) st
      else if field = ''bill/PayerAccountId''
        then (case Bill item of
                None \<Rightarrow> (Panic NilPointerDereference, st)
              | Some b \<Rightarrow> keyParts_loop item fields' (keyParts @ [FormatUint (PayerAccountID b)]) st)
      else keyParts_loop item fields' keyParts
             (st\<lparr>logger := logger st @ [UnsupportedField field]\<rparr>))"

text \<open>\<open>res[key] += cost\<close>: a missing key reads as the zero value.\<close>

definition add_cost :: "(string \<rightharpoonup> 'f::{zero,plus}) \<Rightarrow> string \<Rightarrow> 'f \<Rightarrow> (string \<rightharpoonup> 'f)" where
  "add_cost res key cost = res(key \<mapsto> (case res key of None \<Rightarrow> 0 | Some v \<Rightarrow> v) + cost)"

fun GroupBy_loop :: "string list \<Rightarrow> 'f::{zero,plus,ord} LineItem list \<Rightarrow> (string \<rightharpoonup> 'f) \<Rightarrow> 'r state
    \<Rightarrow> (string \<rightharpoonup> 'f) outcome \<times> 'r state" where
  "GroupBy_loop fields' [] res st = (Return res, st)"
| "GroupBy_loop fields' (item # items) res st =
     (case keyParts_loop item fields' [] st of
        (Panic p, st') \<Rightarrow> (Panic p, st')
      | (Fail e, st') \<Rightarrow> (Fail e, st')
      | (Return keyParts, st') \<Rightarrow>
          (let key = Join keyParts ''_''
           in if 0 < UnblendedCost item
              then GroupBy_loop fields' items (add_cost res key (UnblendedCost item)) st'
              else GroupBy_loop fields' items res st'))"

definition GroupBy :: "string list \<Rightarrow> time \<Rightarrow> time \<Rightarrow> 'f::{zero,plus,ord} Report state
    \<Rightarrow> (string \<rightharpoonup> 'f) outcome \<times> 'f Report state" where
  "GroupBy fields' s e st =
     (case FilterByTime s e st of (items, st') \<Rightarrow> GroupBy_loop fields' items Map.empty st')"

section \<open>Invariants of the store\<close>

text \<open>The position at which \<open>insert_TimePt\<close> puts the new time point.\<close>

definition insert_pos :: "time \<Rightarrow> time list \<Rightarrow> nat" where
  "insert_pos start ts = (case scan_back start ts (length ts) of Some j \<Rightarrow> Suc j | None \<Rightarrow> 0)"

text \<open>Invariant I1: the time points are strictly ascending, without duplicates, and are
  exactly the keys of the map.\<close>

definition I1 :: "'f Report \<Rightarrow> bool" where
  "I1 r \<longleftrightarrow> sorted_wrt (<) (TimePts r) \<and> distinct (TimePts r) \<and> set (TimePts r) = dom (LineItems r)"

text \<open>Each bucket holds only items that start at the bucket's key.\<close>

definition start_keyed :: "'f Report \<Rightarrow> bool" where
  "start_keyed r \<longleftrightarrow> (\<forall>t items. LineItems r t = Some items \<longrightarrow> (\<forall>x \<in> set items. Start x = t))"

text \<open>Invariant I2: no bucket holds two items with the same UID.\<close>

definition I2 :: "'f Report \<Rightarrow> bool" where
  "I2 r \<longleftrightarrow> (\<forall>t items. LineItems r t = Some items \<longrightarrow> distinct (map UID items))"

text \<open>A sequence of \<open>AddLineItem\<close> calls, as the loop of \<open>NewReport\<close> makes them.\<close>

definition ingest :: "'f LineItem list \<Rightarrow> 'f Report state \<Rightarrow> 'f Report state" where
  "ingest ls st = foldl (\<lambda>st l. AddLineItem l st) st ls"

text \<open>The number of entries with a given UID in the bucket at a time point.\<close>

definition UID_count :: "'f Report \<Rightarrow> time \<Rightarrow> 64 word \<Rightarrow> nat" where
  "UID_count r t u = length (filter (\<lambda>x. UID x = u) (bucket r t))"

text \<open>Sample values for concrete instances, with \<open>real\<close> for \<open>float64\<close>.\<close>

definition sample_item :: "nat \<Rightarrow> time \<Rightarrow> time \<Rightarrow> real LineItem" where
  "sample_item u s e = new_LineItem\<lparr>UID := of_nat u, Start := s, End := e\<rparr>"

definition sample_state :: "real Report state" where
  "sample_state = \<lparr>receiver = empty_Report, logger = []\<rparr>"

section \<open>Keys and sums of the grouping, as specified\<close>

text \<open>The field names \<open>GroupBy\<close> knows: the fixed enumeration of the specification.\<close>

definition recognized :: "string \<Rightarrow> bool" where
  "recognized field \<longleftrightarrow> field \<in> {''lineItem/LineItemType'', ''lineItem/Operation'',
     ''lineItem/ProductCode'', ''lineItem/ResourceId'', ''lineItem/TaxType'',
     ''lineItem/UsageAccountId'', ''lineItem/UsageType'', ''bill/PayerAccountId''}"

text \<open>The string value of a recognized field of an item.\<close>

definition field_string :: "'f LineItem \<Rightarrow> string \<Rightarrow> string" where
  "field_string item field =
     (if field = ''lineItem/LineItemType'' then LineItemType item
      else if field = ''lineItem/Operation'' then Operation item
      else if field = ''lineItem/ProductCode'' then ProductCode item
      else if field = ''lineItem/ResourceId'' then ResourceID item
      else if field = ''lineItem/TaxType'' then TaxType item
      else if field = ''lineItem/UsageAccountId'' then UsageAccountID item
      else if field = ''lineItem/UsageType'' then UsageType item
      else if field = ''bill/PayerAccountId''
        then (case Bill item of None \<Rightarrow> [] | Some b \<Rightarrow> FormatUint (PayerAccountID b))
      else [])"

text \<open>The composite key of the specification: the values of the recognized requested fields,
  in the order requested, joined by an underscore.\<close>

definition composite_key :: "string list \<Rightarrow> 'f LineItem \<Rightarrow> string" where
  "composite_key fields' item = Join (map (field_string item) (filter recognized fields')) ''_''"

text \<open>The item has a Bill, or the payer account is not requested (no nil dereference).\<close>

definition has_Bill_for :: "string list \<Rightarrow> 'f LineItem \<Rightarrow> bool" where
  "has_Bill_for fields' item \<longleftrightarrow> Bill item \<noteq> None \<or> ''bill/PayerAccountId'' \<notin> set fields'"

text \<open>Group-by-sum of the specification over a list of items: only a strictly positive cost is
  added, under the item's composite key.\<close>

definition group_sum :: "string list \<Rightarrow> 'f::{zero,plus,ord} LineItem list \<Rightarrow> (string \<rightharpoonup> 'f) \<Rightarrow> (string \<rightharpoonup> 'f)" where
  "group_sum fields' items res =
     foldl (\<lambda>res item. if 0 < UnblendedCost item
                        then add_cost res (composite_key fields' item) (UnblendedCost item)
                        else res) res items"

text \<open>Sample items with a product code, an operation and a cost, and a store holding two.\<close>

definition sample_billed :: "nat \<Rightarrow> time \<Rightarrow> time \<Rightarrow> string \<Rightarrow> string \<Rightarrow> real \<Rightarrow> real LineItem" where
  "sample_billed u s e product operation cost =
     (sample_item u s e)\<lparr>ProductCode := product, Operation := operation, UnblendedCost := cost\<rparr>"

definition sample_store :: "real Report state" where
  "sample_store = ingest [sample_billed 1 0 10 ''A'' ''Run'' 10, sample_billed 2 0 10 ''C'' ''Run'' 0]
     sample_state"

section \<open>Notions of the decoder\<close>

text \<open>What parses: \<open>strconv.ParseFloat\<close>, \<open>time.Parse\<close> with the layout, the interval
  \<open>start/end\<close>, and \<open>strconv.ParseUint\<close> return no error.\<close>

definition float_ok :: "'f library \<Rightarrow> string \<Rightarrow> bool" where
  "float_ok lib s \<longleftrightarrow> snd (ParseFloat lib s) = None"

definition time_ok :: "'f library \<Rightarrow> string \<Rightarrow> bool" where
  "time_ok lib s \<longleftrightarrow> time_Parse lib timeLayout s \<noteq> None"

definition interval_ok :: "'f library \<Rightarrow> string \<Rightarrow> bool" where
  "interval_ok lib timeInterval \<longleftrightarrow>
     length (Split timeInterval CHR ''/'') = 2 \<and>
     time_ok lib (Split timeInterval CHR ''/'' ! 0) \<and>
     time_ok lib (Split timeInterval CHR ''/'' ! 1)"

definition uint_ok :: "string \<Rightarrow> bool" where
  "uint_ok s \<longleftrightarrow> snd (ParseUint s) = None"

text \<open>A sample library, with \<open>real\<close> for \<open>float64\<close>: it parses two numbers and two timestamps.\<close>

definition sample_library :: "real library" where
  "sample_library =
     \<lparr>Sum64String = (\<lambda>s. of_nat (length s)),
      time_Parse = (\<lambda>layout s. if s = ''2020-05-01T00:00:00Z'' then Some 0
                               else if s = ''2020-05-01T01:00:00Z'' then Some 3600 else None),
      ParseFloat = (\<lambda>s. if s = ''1.5'' then (3 / 2, None)
                         else if s = ''2.5'' then (5 / 2, None)
                         else (0, Some ErrSyntax))\<rparr>"

text \<open>A property of every item of a Report, of every LineItemID of an Identity.\<close>

definition all_items :: "('f LineItem \<Rightarrow> bool) \<Rightarrow> 'f Report \<Rightarrow> bool" where
  "all_items P r \<longleftrightarrow> (\<forall>t items. LineItems r t = Some items \<longrightarrow> list_all P items)"

definition all_ids :: "('f LineItemID \<Rightarrow> bool) \<Rightarrow> 'f Identity \<Rightarrow> bool" where
  "all_ids P i \<longleftrightarrow> (\<forall>t lids. LineItemIDs i t = Some lids \<longrightarrow> list_all P lids)"

text \<open>The blended rate of an item is its blended cost.\<close>

definition same_blended :: "'f LineItem \<Rightarrow> bool" where
  "same_blended l \<longleftrightarrow> BlendedRate l = BlendedCost l"

definition same_blended0 :: "'f LineItemID \<Rightarrow> bool" where
  "same_blended0 lid \<longleftrightarrow>
     (case LineItemID.LineItem lid of
        None \<Rightarrow> False
      | Some li \<Rightarrow> LineItem0.BlendedRate li = LineItem0.BlendedCost li)"

text \<open>A sample report of one row: its lines, and their fields.\<close>

definition sample_header_line :: string where
  "sample_header_line = ''identity/LineItemId,identity/TimeInterval,lineItem/BlendedCost,lineItem/BlendedRate,lineItem/NormalizationFactor,lineItem/UnblendedCost,lineItem/UnblendedRate,lineItem/UsageStartDate,lineItem/UsageEndDate,bill/PayerAccountId,bill/BillingPeriodStartDate,bill/BillingPeriodEndDate''"

definition sample_row_line :: string where
  "sample_row_line = ''id1,2020-05-01T00:00:00Z/2020-05-01T01:00:00Z,1.5,2.5,,2.5,,2020-05-01T00:00:00Z,2020-05-01T01:00:00Z,123456789012,2020-05-01T00:00:00Z,2020-05-01T01:00:00Z''"

definition sample_lines :: "string list" where
  "sample_lines = [sample_header_line, sample_row_line]"

definition sample_headers :: "string list" where
  "sample_headers = [''identity/LineItemId'', ''identity/TimeInterval'', ''lineItem/BlendedCost'',
     ''lineItem/BlendedRate'', ''lineItem/NormalizationFactor'', ''lineItem/UnblendedCost'',
     ''lineItem/UnblendedRate'', ''lineItem/UsageStartDate'', ''lineItem/UsageEndDate'',
     ''bill/PayerAccountId'', ''bill/BillingPeriodStartDate'', ''bill/BillingPeriodEndDate'']"

definition sample_parts :: "string list" where
  "sample_parts = [''id1'', ''2020-05-01T00:00:00Z/2020-05-01T01:00:00Z'', ''1.5'', ''2.5'', '''',
     ''2.5'', '''', ''2020-05-01T00:00:00Z'', ''2020-05-01T01:00:00Z'', ''123456789012'',
     ''2020-05-01T00:00:00Z'', ''2020-05-01T01:00:00Z'']"

text \<open>The header index that \<open>NewReport\<close> and the first \<open>main\<close> build from the first line.\<close>

definition headerIdx_of :: "string list \<Rightarrow> (string \<rightharpoonup> nat)" where
  "headerIdx_of lines = header_index (Split (case lines of [] \<Rightarrow> [] | h # _ \<Rightarrow> h) CHR '','')"

text \<open>The blended cost and rate of an item (of the LineItem of a LineItemID) are the value parsed
  from the column \<open>lineItem/BlendedCost\<close> of one of the rows.\<close>

definition from_BlendedCost :: "'f library \<Rightarrow> (string \<rightharpoonup> nat) \<Rightarrow> string list \<Rightarrow> 'f LineItem \<Rightarrow> bool" where
  "from_BlendedCost lib headerIdx rows l \<longleftrightarrow>
     (\<exists>row \<in> set rows.
        BlendedCost l = fst (ParseFloat lib (cell headerIdx (Split row CHR '','') ''lineItem/BlendedCost'')) \<and>
        BlendedRate l = fst (ParseFloat lib (cell headerIdx (Split row CHR '','') ''lineItem/BlendedCost'')))"

definition from_BlendedCost0 :: "'f library \<Rightarrow> (string \<rightharpoonup> nat) \<Rightarrow> string list \<Rightarrow> 'f LineItemID \<Rightarrow> bool" where
  "from_BlendedCost0 lib headerIdx rows lid \<longleftrightarrow>
     (case LineItemID.LineItem lid of
        None \<Rightarrow> False
      | Some li \<Rightarrow>
          (\<exists>row \<in> set rows.
             LineItem0.BlendedCost li
               = fst (ParseFloat lib (cell headerIdx (Split row CHR '','') ''lineItem/BlendedCost'')) \<and>
             LineItem0.BlendedRate li
               = fst (ParseFloat lib (cell headerIdx (Split row CHR '','') ''lineItem/BlendedCost''))))"

text \<open>The items decoded from the rows, and a sequence of \<open>AddLineItemID\<close> calls.\<close>

definition decoded :: "'f::zero library \<Rightarrow> (string \<rightharpoonup> nat) \<Rightarrow> string list \<Rightarrow> 'f LineItem list" where
  "decoded lib headerIdx rows =
     map (\<lambda>row. returned (row_LineItem lib headerIdx (Split row CHR '',''))) rows"

definition decoded0 :: "'f::zero library \<Rightarrow> (string \<rightharpoonup> nat) \<Rightarrow> string list \<Rightarrow> 'f LineItemID list" where
  "decoded0 lib headerIdx rows =
     map (\<lambda>row. returned (row_LineItemID lib headerIdx (Split row CHR '',''))) rows"

definition ingest0 :: "'f LineItemID list \<Rightarrow> 'f Identity state \<Rightarrow> 'f Identity state" where
  "ingest0 ls st = foldl (\<lambda>st l. AddLineItemID l st) st ls"

section \<open>Insertion into the sorted time points\<close>


lemma go_copy_shift:
  "s < length xs \<Longrightarrow> go_copy xs (Suc s) s = take (Suc s) xs @ take (length xs - Suc s) (drop s xs)"
  by (simp add: go_copy_def min_def)

lemma insert_mid:
  assumes "j + 1 < length ts"
  shows "(go_copy (ts @ [z]) (j + 2) (j + 1)) [j + 1 := start] = take (j + 1) ts @ start # drop (j + 1) ts"
proof -
  have "go_copy (ts @ [z]) (Suc (Suc j)) (Suc j)
          = take (Suc (Suc j)) (ts @ [z]) @ take (length (ts @ [z]) - Suc (Suc j)) (drop (Suc j) (ts @ [z]))"
    using assms by (intro go_copy_shift) simp
  also have "\<dots> = take (Suc j) ts @ [ts ! Suc j] @ drop (Suc j) ts"
    using assms by (simp add: take_Suc_conv_app_nth)
  finally have "go_copy (ts @ [z]) (j + 2) (j + 1) = take (Suc j) ts @ [ts ! Suc j] @ drop (Suc j) ts"
    by simp
  then show ?thesis using assms
    by (simp add: list_update_append)
qed

lemma insert_front:
  "(go_copy (ts @ [z]) 1 0) [0 := start] = start # ts"
proof (cases ts)
  case Nil
  then show ?thesis by (simp add: go_copy_def)
next
  case (Cons a as)
  then show ?thesis by (simp add: go_copy_def min_def)
qed

lemma scan_back_Some:
  "scan_back start ts n = Some j \<Longrightarrow> j < n \<and> ts ! j < start \<and> (\<forall>i. j < i \<and> i < n \<longrightarrow> \<not> ts ! i < start)"
proof (induction n)
  case 0
  then show ?case by simp
next
  case (Suc n)
  show ?case
  proof (cases "After start (ts ! n)")
    case True
    with Suc.prems show ?thesis by (auto simp: After_def)
  next
    case False
    with Suc.prems have "scan_back start ts n = Some j" by simp
    from Suc.IH[OF this] False show ?thesis
      by (auto simp: After_def less_Suc_eq)
  qed
qed

lemma scan_back_None:
  "scan_back start ts n = None \<Longrightarrow> (\<forall>i<n. \<not> ts ! i < start)"
  by (induction n) (auto simp: After_def less_Suc_eq split: if_splits)


lemma insert_TimePt_take_drop:
  "insert_TimePt start ts = take (insert_pos start ts) ts @ start # drop (insert_pos start ts) ts"
proof (cases "scan_back start ts (length ts)")
  case None
  then show ?thesis using insert_front[of ts zero_time start]
    by (simp add: insert_TimePt_def insert_pos_def)
next
  case (Some j)
  then have j: "j < length ts" using scan_back_Some by blast
  show ?thesis
  proof (cases "j = length ts - 1")
    case True
    with Some j show ?thesis by (simp add: insert_TimePt_def insert_pos_def)
  next
    case False
    with j have "j + 1 < length ts" by simp
    from insert_mid[OF this] Some False show ?thesis
      by (simp add: insert_TimePt_def insert_pos_def)
  qed
qed

lemma set_insert_TimePt: "set (insert_TimePt start ts) = insert start (set ts)"
proof -
  have "set (take (insert_pos start ts) ts) \<union> set (drop (insert_pos start ts) ts) = set ts"
    by (metis append_take_drop_id set_append)
  then show ?thesis by (auto simp: insert_TimePt_take_drop)
qed

lemma insert_pos_le: "insert_pos start ts \<le> length ts"
  by (auto simp: insert_pos_def split: option.splits dest: scan_back_Some)

lemma insert_pos_before:
  "sorted_wrt (<) ts \<Longrightarrow> i < insert_pos start ts \<Longrightarrow> ts ! i < start"
proof -
  assume s: "sorted_wrt (<) ts" and i: "i < insert_pos start ts"
  then obtain j where j: "scan_back start ts (length ts) = Some j" and ij: "i \<le> j"
    by (auto simp: insert_pos_def split: option.splits)
  from scan_back_Some[OF j] have jl: "j < length ts" and js: "ts ! j < start" by auto
  show "ts ! i < start"
  proof (cases "i = j")
    case True then show ?thesis using js by simp
  next
    case False
    with ij have "i < j" by simp
    with s jl have "ts ! i < ts ! j" by (simp add: sorted_wrt_nth_less)
    with js show ?thesis by simp
  qed
qed

lemma insert_pos_after:
  "insert_pos start ts \<le> i \<Longrightarrow> i < length ts \<Longrightarrow> \<not> ts ! i < start"
  by (auto simp: insert_pos_def split: option.splits dest: scan_back_Some scan_back_None)

lemma sorted_insert_TimePt:
  assumes "sorted_wrt (<) ts" and "start \<notin> set ts"
  shows "sorted_wrt (<) (insert_TimePt start ts)"
proof -
  let ?k = "insert_pos start ts"
  have k: "?k \<le> length ts" by (rule insert_pos_le)
  have a: "\<forall>x \<in> set (take ?k ts). x < start"
  proof
    fix x assume "x \<in> set (take ?k ts)"
    then obtain i where "i < length (take ?k ts)" "x = take ?k ts ! i"
      by (auto simp: in_set_conv_nth)
    then show "x < start" using insert_pos_before[OF assms(1), of i start] by simp
  qed
  have b: "\<forall>y \<in> set (drop ?k ts). start < y"
  proof
    fix y assume y: "y \<in> set (drop ?k ts)"
    then obtain i where i: "i < length (drop ?k ts)" "y = drop ?k ts ! i"
      by (auto simp: in_set_conv_nth)
    then have "\<not> ts ! (?k + i) < start"
      using insert_pos_after[of start ts "?k + i"] by simp
    moreover have "y = ts ! (?k + i)" using i k by simp
    moreover have "y \<in> set ts" using y by (rule in_set_dropD)
    ultimately have "\<not> y < start" "y \<noteq> start" using assms(2) by auto
    then show "start < y" by linarith
  qed
  have c: "sorted_wrt (<) (take ?k ts @ drop ?k ts)" using assms(1) by simp
  then have "sorted_wrt (<) (take ?k ts)" "sorted_wrt (<) (drop ?k ts)"
       "\<forall>x \<in> set (take ?k ts). \<forall>y \<in> set (drop ?k ts). x < y"
    unfolding sorted_wrt_append by auto
  with a b show ?thesis
    unfolding insert_TimePt_take_drop sorted_wrt_append by auto
qed

section \<open>Ingestion\<close>

lemma has_UID_iff: "has_UID u lids \<longleftrightarrow> u \<in> UID ` set lids"
  by (induction lids) auto

lemma has_UID0_iff: "has_UID0 u lids \<longleftrightarrow> u \<in> LineItemID.UID ` set lids"
  by (induction lids) auto

lemma AddLineItem_dup:
  "LineItems (receiver st) (Start l) = Some lids \<Longrightarrow> has_UID (UID l) lids \<Longrightarrow>
   AddLineItem l st = st\<lparr>logger := logger st @ [AlreadyExists (UID l)]\<rparr>"
  by (simp add: AddLineItem_def Let_def)

lemma AddLineItem_append:
  "LineItems (receiver st) (Start l) = Some lids \<Longrightarrow> \<not> has_UID (UID l) lids \<Longrightarrow>
   AddLineItem l st =
     st\<lparr>receiver := (receiver st)\<lparr>LineItems := (LineItems (receiver st))(Start l \<mapsto> lids @ [l])\<rparr>\<rparr>"
  by (simp add: AddLineItem_def Let_def)

lemma AddLineItem_new:
  "LineItems (receiver st) (Start l) = None \<Longrightarrow>
   AddLineItem l st =
     st\<lparr>receiver := (receiver st)\<lparr>LineItems := (LineItems (receiver st))(Start l \<mapsto> [l]),
       TimePts := insert_TimePt (Start l) (TimePts (receiver st))\<rparr>\<rparr>"
  by (simp add: AddLineItem_def Let_def)

lemma AddLineItem_cases:
  obtains (dup) lids where "LineItems (receiver st) (Start l) = Some lids" "has_UID (UID l) lids"
  | (app) lids where "LineItems (receiver st) (Start l) = Some lids" "\<not> has_UID (UID l) lids"
  | (new) "LineItems (receiver st) (Start l) = None"
  by (cases "LineItems (receiver st) (Start l)") auto

lemma AddLineItem_I1:
  assumes "I1 (receiver st)"
  shows "I1 (receiver (AddLineItem l st))"
proof (cases st l rule: AddLineItem_cases)
  case (dup lids)
  then show ?thesis using assms by (simp add: AddLineItem_dup)
next
  case (app lids)
  then have "dom ((LineItems (receiver st))(Start l \<mapsto> lids @ [l])) = dom (LineItems (receiver st))"
    by auto
  then show ?thesis using assms app by (simp add: AddLineItem_append I1_def)
next
  case new
  then have notin: "Start l \<notin> set (TimePts (receiver st))"
    using assms by (auto simp: I1_def)
  have s: "sorted_wrt (<) (insert_TimePt (Start l) (TimePts (receiver st)))"
    using assms notin by (simp add: I1_def sorted_insert_TimePt)
  then have d: "distinct (insert_TimePt (Start l) (TimePts (receiver st)))"
    using strict_sorted_iff by blast
  show ?thesis using assms s d
    by (simp add: AddLineItem_new[OF new] I1_def set_insert_TimePt)
qed

lemma ingest_I1: "I1 (receiver st) \<Longrightarrow> I1 (receiver (ingest ls st))"
  unfolding ingest_def
  by (induction ls arbitrary: st) (simp_all add: AddLineItem_I1)

lemma I1_empty: "I1 empty_Report"
  by (simp add: I1_def empty_Report_def)

lemma AddLineItem_start_keyed:
  assumes "start_keyed (receiver st)"
  shows "start_keyed (receiver (AddLineItem l st))"
proof (cases st l rule: AddLineItem_cases)
  case (dup lids)
  then show ?thesis using assms by (simp add: AddLineItem_dup)
next
  case (app lids)
  then show ?thesis using assms
    by (auto simp: AddLineItem_append start_keyed_def)
next
  case new
  then show ?thesis using assms
    by (auto simp: AddLineItem_new start_keyed_def)
qed

lemma ingest_start_keyed: "start_keyed (receiver st) \<Longrightarrow> start_keyed (receiver (ingest ls st))"
  unfolding ingest_def
  by (induction ls arbitrary: st) (simp_all add: AddLineItem_start_keyed)

lemma start_keyed_empty: "start_keyed empty_Report"
  by (simp add: start_keyed_def empty_Report_def)

lemma AddLineItem_I2:
  assumes "I2 (receiver st)"
  shows "I2 (receiver (AddLineItem l st))"
proof (cases st l rule: AddLineItem_cases)
  case (dup lids)
  then show ?thesis using assms by (simp add: AddLineItem_dup)
next
  case (app lids)
  then show ?thesis using assms
    by (auto simp: AddLineItem_append I2_def has_UID_iff)
next
  case new
  then show ?thesis using assms
    by (auto simp: AddLineItem_new I2_def)
qed

lemma ingest_I2: "I2 (receiver st) \<Longrightarrow> I2 (receiver (ingest ls st))"
  unfolding ingest_def
  by (induction ls arbitrary: st) (simp_all add: AddLineItem_I2)

lemma I2_empty: "I2 empty_Report"
  by (simp add: I2_def empty_Report_def)

text \<open>After one ingestion the item's UID occurs in the bucket at its start.\<close>

lemma AddLineItem_has_UID:
  "\<exists>lids. LineItems (receiver (AddLineItem l st)) (Start l) = Some lids \<and> has_UID (UID l) lids"
proof (cases st l rule: AddLineItem_cases)
  case (dup lids)
  then show ?thesis by (simp add: AddLineItem_dup)
next
  case (app lids)
  then show ?thesis by (simp add: AddLineItem_append has_UID_iff)
next
  case new
  then show ?thesis by (simp add: AddLineItem_new)
qed

lemma AddLineItem_twice:
  "receiver (AddLineItem l (AddLineItem l st)) = receiver (AddLineItem l st)"
proof -
  obtain lids where "LineItems (receiver (AddLineItem l st)) (Start l) = Some lids"
      "has_UID (UID l) lids"
    using AddLineItem_has_UID by blast
  then show ?thesis by (simp add: AddLineItem_dup)
qed

lemma UID_count_distinct:
  "distinct (map UID xs) \<Longrightarrow> u \<in> UID ` set xs \<Longrightarrow> length (filter (\<lambda>x. UID x = u) xs) = 1"
proof (induction xs)
  case Nil
  then show ?case by simp
next
  case (Cons a xs)
  show ?case
  proof (cases "UID a = u")
    case True
    from Cons.prems have "UID a \<notin> UID ` set xs" by simp
    with True have "\<forall>x \<in> set xs. UID x \<noteq> u" by blast
    then have "filter (\<lambda>x. UID x = u) xs = []"
      by (simp add: filter_empty_conv)
    with True show ?thesis by simp
  next
    case False
    with Cons show ?thesis by auto
  qed
qed

lemma AddLineItem_UID_count:
  assumes "I2 (receiver st)"
  shows "UID_count (receiver (AddLineItem l st)) (Start l) (UID l) = 1"
proof -
  obtain lids where l: "LineItems (receiver (AddLineItem l st)) (Start l) = Some lids"
      "has_UID (UID l) lids"
    using AddLineItem_has_UID by blast
  have "I2 (receiver (AddLineItem l st))" using assms by (rule AddLineItem_I2)
  with l have "distinct (map UID lids)" by (auto simp: I2_def)
  with l show ?thesis
    by (simp add: UID_count_def bucket_def UID_count_distinct has_UID_iff)
qed

text \<open>
  C2. After any sequence of \<open>AddLineItem\<close> calls on an initially empty Report, \<open>TimePts\<close>
  is strictly ascending, has no duplicate entry, and its elements are exactly the keys of
  the \<open>LineItems\<close> map.
\<close>

theorem sorted_index_invariant:
  "sorted_wrt (<) (TimePts (receiver (ingest ls \<lparr>receiver = empty_Report, logger = lg\<rparr>))) \<and>
   distinct (TimePts (receiver (ingest ls \<lparr>receiver = empty_Report, logger = lg\<rparr>))) \<and>
   set (TimePts (receiver (ingest ls \<lparr>receiver = empty_Report, logger = lg\<rparr>)))
     = dom (LineItems (receiver (ingest ls \<lparr>receiver = empty_Report, logger = lg\<rparr>)))"
  using ingest_I1[of "\<lparr>receiver = empty_Report, logger = lg\<rparr>" ls] I1_empty
  by (simp add: I1_def)

lemma sample_TimePts:
  "TimePts (receiver (ingest [sample_item 1 5 6, sample_item 2 3 4, sample_item 3 5 7, sample_item 4 4 9]
      sample_state)) = [3, 4, 5]"
  by (simp add: ingest_def AddLineItem_def empty_Report_def sample_item_def sample_state_def
      insert_TimePt_def go_copy_def After_def)

theorem sorted_index_invariant_witness:
  "sorted_wrt (<) [3, 4, 5 :: time] \<and> distinct [3, 4, 5 :: time] \<and>
   set [3, 4, 5 :: time] = dom (LineItems (receiver (ingest
      [sample_item 1 5 6, sample_item 2 3 4, sample_item 3 5 7, sample_item 4 4 9] sample_state)))"
  using sorted_index_invariant[of
      "[sample_item 1 5 6, sample_item 2 3 4, sample_item 3 5 7, sample_item 4 4 9]" "[]"]
  unfolding sample_TimePts sample_state_def[symmetric] .

lemma AddLineItemID_dup:
  "LineItemIDs (receiver st) (LineItemID.Start l) = Some lids \<Longrightarrow>
   LineItemID.UID l \<in> LineItemID.UID ` set lids \<Longrightarrow>
   AddLineItemID l st = st\<lparr>logger := logger st @ [AlreadyExists (LineItemID.UID l)]\<rparr>"
  by (simp add: AddLineItemID_def Let_def has_UID0_iff)

text \<open>
  C3. When the item's UID already occurs in the bucket at its start, \<open>AddLineItem\<close>
  leaves \<open>LineItems\<close> and \<open>TimePts\<close> as they are (it only logs the duplicate). Hence a
  second ingestion of an item yields the store of the first one, and in a store without
  duplicate UIDs in a bucket (invariant I2) the bucket then holds exactly one entry with
  the item's UID. The same check of \<open>AddLineItemID\<close> leaves the Identity as it is.
\<close>

theorem dedup_idempotence:
  "(LineItems (receiver st) (Start l) = Some lids \<and> UID l \<in> UID ` set lids \<longrightarrow>
      receiver (AddLineItem l st) = receiver st \<and>
      LineItems (receiver (AddLineItem l st)) = LineItems (receiver st) \<and>
      TimePts (receiver (AddLineItem l st)) = TimePts (receiver st)) \<and>
   receiver (AddLineItem l (AddLineItem l st)) = receiver (AddLineItem l st) \<and>
   (I2 (receiver st) \<longrightarrow>
      UID_count (receiver (AddLineItem l (AddLineItem l st))) (Start l) (UID l) = 1) \<and>
   (LineItemIDs (receiver ist) (LineItemID.Start lid) = Some lids0 \<and>
    LineItemID.UID lid \<in> LineItemID.UID ` set lids0 \<longrightarrow>
      receiver (AddLineItemID lid ist) = receiver ist)"
  by (simp add: AddLineItem_dup has_UID_iff AddLineItem_twice AddLineItem_UID_count
      AddLineItemID_dup)


theorem dedup_idempotence_witness:
  "LineItems (receiver (AddLineItem (sample_item 1 5 6) sample_state)) (Start (sample_item 1 5 6))
     = Some [sample_item 1 5 6] \<and>
   UID (sample_item 1 5 6) \<in> UID ` set [sample_item 1 5 6] \<and>
   I2 (receiver (AddLineItem (sample_item 1 5 6) sample_state)) \<and>
   receiver (AddLineItem (sample_item 1 5 6) (AddLineItem (sample_item 1 5 6) sample_state))
     = receiver (AddLineItem (sample_item 1 5 6) sample_state) \<and>
   UID_count (receiver (AddLineItem (sample_item 1 5 6)
       (AddLineItem (sample_item 1 5 6) (AddLineItem (sample_item 1 5 6) sample_state))))
     (Start (sample_item 1 5 6)) (UID (sample_item 1 5 6)) = 1 \<and>
   LineItemIDs (receiver (AddLineItemID (sample_id 1 5 6) \<lparr>receiver = NewIdentity, logger = []\<rparr>))
     (LineItemID.Start (sample_id 1 5 6)) = Some [sample_id 1 5 6] \<and>
   receiver (AddLineItemID (sample_id 1 5 6)
       (AddLineItemID (sample_id 1 5 6) \<lparr>receiver = NewIdentity, logger = []\<rparr>))
     = receiver (AddLineItemID (sample_id 1 5 6) \<lparr>receiver = NewIdentity, logger = []\<rparr>)"
proof -
  let ?l = "sample_item 1 5 6"
  let ?st = "AddLineItem ?l sample_state"
  let ?lid = "sample_id 1 5 6"
  let ?ist = "AddLineItemID ?lid \<lparr>receiver = NewIdentity, logger = []\<rparr>"
  have h1: "LineItems (receiver ?st) (Start ?l) = Some [?l]"
    by (simp add: AddLineItem_def sample_state_def empty_Report_def)
  have h2: "UID ?l \<in> UID ` set [?l]" by simp
  have h3: "I2 (receiver ?st)"
    by (rule AddLineItem_I2) (simp add: sample_state_def I2_empty)
  have h4: "LineItemIDs (receiver ?ist) (LineItemID.Start ?lid) = Some [?lid]"
    by (simp add: AddLineItemID_def NewIdentity_def)
  have h5: "LineItemID.UID ?lid \<in> LineItemID.UID ` set [?lid]" by simp
  from dedup_idempotence[of ?st ?l "[?l]" ?ist ?lid "[?lid]"] h1 h2 h3 h4 h5
  show ?thesis by blast
qed

text \<open>What \<open>AddLineItem\<close> does for an item with a new UID at an existing start.\<close>

lemma AddLineItem_appends:
  assumes "LineItems (receiver st) (Start l) = Some lids" and "UID l \<notin> UID ` set lids"
  shows "LineItems (receiver (AddLineItem l st)) (Start l) = Some (lids @ [l])"
    and "l \<in> set (bucket (receiver (AddLineItem l st)) (Start l))"
  using assms by (simp_all add: AddLineItem_append has_UID_iff bucket_def)

text \<open>What \<open>AddLineItemID\<close> of the first revision does there: nothing.\<close>

lemma AddLineItemID_drops:
  assumes "LineItemIDs (receiver st) (LineItemID.Start l) = Some lids"
    and "LineItemID.UID l \<notin> LineItemID.UID ` set lids"
  shows "AddLineItemID l st = st"
  using assms by (simp add: AddLineItemID_def Let_def has_UID0_iff)

text \<open>
  C4. An item whose start is already a key of the map and whose UID does not occur in
  that bucket is to be appended to the bucket. \<open>Identity.AddLineItemID\<close> appends to its
  local slice only: after two ingestions at the same start the second item is not in the
  bucket stored in the map.
\<close>

theorem AddLineItemID_loses_item:
  "LineItemIDs (receiver (AddLineItemID (sample_id 1 5 6) \<lparr>receiver = NewIdentity, logger = []\<rparr>)) 5
     = Some [sample_id 1 5 6] \<and>
   LineItemID.UID (sample_id 2 5 7) \<notin> LineItemID.UID ` set [sample_id 1 5 6] \<and>
   LineItemIDs (receiver (AddLineItemID (sample_id 2 5 7)
       (AddLineItemID (sample_id 1 5 6) \<lparr>receiver = NewIdentity, logger = []\<rparr>))) 5
     = Some [sample_id 1 5 6] \<and>
   sample_id 2 5 7 \<notin> set [sample_id 1 5 6]"
  by (simp add: AddLineItemID_def NewIdentity_def sample_id_def)

section \<open>Range query\<close>

lemma foldl_keep:
  "foldl (\<lambda>l item. if P item then l @ [item] else l) acc xs = acc @ filter P xs"
  by (induction xs arbitrary: acc) auto

lemma foldl_buckets:
  "foldl (\<lambda>l i. foldl (\<lambda>l item. if P item then l @ [item] else l) l (f i)) acc is
     = acc @ concat (map (\<lambda>i. filter P (f i)) is)"
  by (induction "is" arbitrary: acc) (auto simp: foldl_keep)

lemma endIdx_scan_takeWhile: "endIdx_scan e ts = length (takeWhile (\<lambda>t. t \<le> e) ts)"
  by (induction ts) (auto simp: After_def)

lemma map_nth_upt_take: "k \<le> length ts \<Longrightarrow> map ((!) ts) [0..<k] = take k ts"
  by (rule nth_equalityI) simp_all

lemma FilterByTime_concat:
  "fst (FilterByTime s e st) =
     concat (map (\<lambda>t. filter (\<lambda>item. s < End item) (bucket (receiver st) t))
                 (takeWhile (\<lambda>t. t \<le> e) (TimePts (receiver st))))"
proof -
  let ?ts = "TimePts (receiver st)"
  let ?k = "endIdx_scan e ?ts"
  have k: "?k \<le> length ?ts" by (simp add: endIdx_scan_takeWhile length_takeWhile_le)
  have "map (\<lambda>i. filter (\<lambda>item. s < End item) (bucket (receiver st) (?ts ! i))) [0..<?k]
        = map (\<lambda>t. filter (\<lambda>item. s < End item) (bucket (receiver st) t)) (map ((!) ?ts) [0..<?k])"
    by simp
  also have "map ((!) ?ts) [0..<?k] = take ?k ?ts" using k by (rule map_nth_upt_take)
  also have "take ?k ?ts = takeWhile (\<lambda>t. t \<le> e) ?ts"
    by (simp add: endIdx_scan_takeWhile takeWhile_eq_take[symmetric])
  finally show ?thesis
    by (simp add: FilterByTime_def Let_def foldl_buckets After_def)
qed

lemma sorted_takeWhile_set:
  "sorted_wrt (<) (ts :: time list) \<Longrightarrow> set (takeWhile (\<lambda>t. t \<le> e) ts) = {t \<in> set ts. t \<le> e}"
proof (induction ts)
  case Nil
  then show ?case by simp
next
  case (Cons a ts)
  then show ?case by (auto simp: less_imp_le dest: order.strict_trans2)
qed

lemma FilterByTime_set:
  assumes "I1 (receiver st)"
  shows "set (fst (FilterByTime s e st)) =
     {x. \<exists>t items. LineItems (receiver st) t = Some items \<and> t \<le> e \<and> x \<in> set items \<and> s < End x}"
proof -
  have ts: "set (takeWhile (\<lambda>t. t \<le> e) (TimePts (receiver st))) = {t \<in> dom (LineItems (receiver st)). t \<le> e}"
    using assms sorted_takeWhile_set[of "TimePts (receiver st)" e] by (simp add: I1_def)
  show ?thesis
    unfolding FilterByTime_concat set_concat set_map ts
    by (auto simp: bucket_def split: option.splits) blast
qed

lemma FilterByTime_overlap:
  assumes "I1 (receiver st)" and "start_keyed (receiver st)"
    and "LineItems (receiver st) t = Some items" and "x \<in> set items"
  shows "x \<in> set (fst (FilterByTime Ws We st)) \<longleftrightarrow> Ws < End x \<and> Start x \<le> We"
proof -
  have "\<And>t' items'. LineItems (receiver st) t' = Some items' \<Longrightarrow> x \<in> set items' \<Longrightarrow> t' = Start x"
    using assms(2) by (auto simp: start_keyed_def)
  moreover have "t = Start x" using assms(2-4) by (auto simp: start_keyed_def)
  ultimately show ?thesis
    using assms(3,4) unfolding FilterByTime_set[OF assms(1)] by auto
qed

lemma sample_item_sel [simp]:
  "UID (sample_item u s e) = of_nat u" "Start (sample_item u s e) = s" "End (sample_item u s e) = e"
  by (simp_all add: sample_item_def)

text \<open>
  C1. In every store that satisfies I1 (with each bucket holding the items that start at
  its key, as the map is defined), and so in every store built by \<open>AddLineItem\<close> calls
  from the empty Report, a stored item with interval [S, E] is in the result of
  \<open>FilterByTime Ws We\<close> if and only if E is strictly after Ws and S is at or before We.
\<close>

theorem range_query_overlap:
  "(I1 (receiver st) \<and> start_keyed (receiver st) \<and>
    LineItems (receiver st) t = Some items \<and> x \<in> set items \<longrightarrow>
      (x \<in> set (fst (FilterByTime Ws We st)) \<longleftrightarrow> Ws < End x \<and> Start x \<le> We)) \<and>
   (LineItems (receiver (ingest ls \<lparr>receiver = empty_Report, logger = lg\<rparr>)) t' = Some items' \<and>
    y \<in> set items' \<longrightarrow>
      (y \<in> set (fst (FilterByTime Ws We (ingest ls \<lparr>receiver = empty_Report, logger = lg\<rparr>)))
         \<longleftrightarrow> Ws < End y \<and> Start y \<le> We))"
proof (intro conjI impI)
  assume "I1 (receiver st) \<and> start_keyed (receiver st) \<and>
    LineItems (receiver st) t = Some items \<and> x \<in> set items"
  then show "x \<in> set (fst (FilterByTime Ws We st)) \<longleftrightarrow> Ws < End x \<and> Start x \<le> We"
    using FilterByTime_overlap[of st t items x Ws We] by blast
next
  let ?st = "ingest ls \<lparr>receiver = empty_Report, logger = lg\<rparr>"
  assume a: "LineItems (receiver ?st) t' = Some items' \<and> y \<in> set items'"
  have "I1 (receiver ?st)" by (rule ingest_I1) (simp add: I1_empty)
  moreover have "start_keyed (receiver ?st)"
    by (rule ingest_start_keyed) (simp add: start_keyed_empty)
  ultimately show "y \<in> set (fst (FilterByTime Ws We ?st)) \<longleftrightarrow> Ws < End y \<and> Start y \<le> We"
    using a FilterByTime_overlap[of ?st t' items' y Ws We] by blast
qed

lemma sample_ingest_two:
  "LineItems (receiver (ingest [sample_item 1 0 3600, sample_item 3 7200 10800]
      \<lparr>receiver = empty_Report, logger = []\<rparr>)) 0 = Some [sample_item 1 0 3600]"
  "LineItems (receiver (ingest [sample_item 1 0 3600, sample_item 3 7200 10800]
      \<lparr>receiver = empty_Report, logger = []\<rparr>)) 7200 = Some [sample_item 3 7200 10800]"
  by (simp_all add: ingest_def AddLineItem_def empty_Report_def)

theorem range_query_overlap_witness:
  "I1 (receiver (AddLineItem (sample_item 1 0 3600) sample_state)) \<and>
   start_keyed (receiver (AddLineItem (sample_item 1 0 3600) sample_state)) \<and>
   LineItems (receiver (AddLineItem (sample_item 1 0 3600) sample_state)) 0
     = Some [sample_item 1 0 3600] \<and>
   sample_item 1 0 3600 \<in> set (fst (FilterByTime 1800 7200
       (AddLineItem (sample_item 1 0 3600) sample_state))) \<and>
   sample_item 1 0 3600 \<notin> set (fst (FilterByTime 3600 7200
       (AddLineItem (sample_item 1 0 3600) sample_state))) \<and>
   LineItems (receiver (ingest [sample_item 1 0 3600, sample_item 3 7200 10800]
      \<lparr>receiver = empty_Report, logger = []\<rparr>)) 7200 = Some [sample_item 3 7200 10800] \<and>
   sample_item 3 7200 10800 \<in> set (fst (FilterByTime 1800 7200
      (ingest [sample_item 1 0 3600, sample_item 3 7200 10800] \<lparr>receiver = empty_Report, logger = []\<rparr>))) \<and>
   sample_item 3 7200 10800 \<notin> set (fst (FilterByTime 1800 7000
      (ingest [sample_item 1 0 3600, sample_item 3 7200 10800] \<lparr>receiver = empty_Report, logger = []\<rparr>))) \<and>
   sample_item 1 0 3600 \<notin> set (fst (FilterByTime 3600 7200
      (ingest [sample_item 1 0 3600, sample_item 3 7200 10800] \<lparr>receiver = empty_Report, logger = []\<rparr>)))"
proof -
  let ?x = "sample_item 1 0 3600"
  let ?z = "sample_item 3 7200 10800"
  let ?st = "AddLineItem ?x sample_state"
  let ?ls = "[?x, ?z]"
  let ?in = "ingest ?ls \<lparr>receiver = empty_Report, logger = []\<rparr>"
  have h1: "I1 (receiver ?st)"
    by (rule AddLineItem_I1) (simp add: sample_state_def I1_empty)
  have h2: "start_keyed (receiver ?st)"
    by (rule AddLineItem_start_keyed) (simp add: sample_state_def start_keyed_empty)
  have h3: "LineItems (receiver ?st) 0 = Some [?x]"
    by (simp add: AddLineItem_def sample_state_def empty_Report_def)
  have h4: "?x \<in> set [?x]" by simp
  have h5: "?z \<in> set [?z]" by simp
  from range_query_overlap[of ?st 0 "[?x]" ?x 1800 7200 ?ls "[]" 7200 "[?z]" ?z] h1 h2 h3 h4 h5
    sample_ingest_two(2)
  have a: "?x \<in> set (fst (FilterByTime 1800 7200 ?st))"
    and c: "?z \<in> set (fst (FilterByTime 1800 7200 ?in))" by simp_all
  from range_query_overlap[of ?st 0 "[?x]" ?x 3600 7200 ?ls "[]" 0 "[?x]" ?x] h1 h2 h3 h4
    sample_ingest_two(1)
  have b: "?x \<notin> set (fst (FilterByTime 3600 7200 ?st))"
    and e: "?x \<notin> set (fst (FilterByTime 3600 7200 ?in))" by simp_all
  from range_query_overlap[of ?st 0 "[?x]" ?x 1800 7000 ?ls "[]" 7200 "[?z]" ?z] h5
    sample_ingest_two(2)
  have d: "?z \<notin> set (fst (FilterByTime 1800 7000 ?in))" by simp
  from h1 h2 h3 a b c d e sample_ingest_two(2) show ?thesis by blast
qed

section \<open>Grouping\<close>

lemma keyParts_loop_receiver:
  "receiver (snd (keyParts_loop item fields' keyParts st)) = receiver st"
  by (induction fields' arbitrary: keyParts st) (simp_all split: option.splits)

lemma has_Bill_for_Cons:
  "has_Bill_for (field # fields') item \<Longrightarrow> has_Bill_for fields' item"
  by (auto simp: has_Bill_for_def)

lemma keyParts_loop_eq:
  "has_Bill_for fields' item \<Longrightarrow>
   keyParts_loop item fields' keyParts st =
     (Return (keyParts @ map (field_string item) (filter recognized fields')),
      st\<lparr>logger := logger st @ map UnsupportedField (filter (\<lambda>f. \<not> recognized f) fields')\<rparr>)"
proof (induction fields' arbitrary: keyParts st)
  case Nil
  then show ?case by simp
next
  case (Cons field fields')
  from Cons.prems have h: "has_Bill_for fields' item" by (rule has_Bill_for_Cons)
  note IH = Cons.IH[OF h]
  show ?case
  proof (cases "field = ''bill/PayerAccountId''")
    case True
    with Cons.prems obtain b where "Bill item = Some b" by (auto simp: has_Bill_for_def)
    with True show ?thesis by (simp add: IH recognized_def field_string_def)
  next
    case False
    then show ?thesis by (simp add: IH recognized_def field_string_def)
  qed
qed

lemma keyParts_loop_panic:
  "\<not> has_Bill_for fields' item \<Longrightarrow>
   fst (keyParts_loop item fields' keyParts st) = Panic NilPointerDereference"
proof (induction fields' arbitrary: keyParts st)
  case Nil
  then show ?case by (simp add: has_Bill_for_def)
next
  case (Cons field fields')
  from Cons.prems have b: "Bill item = None" by (simp add: has_Bill_for_def)
  show ?case
  proof (cases "field = ''bill/PayerAccountId''")
    case True
    with b show ?thesis by simp
  next
    case False
    with Cons.prems have "\<not> has_Bill_for fields' item" by (simp add: has_Bill_for_def)
    then show ?thesis using False by (simp add: Cons.IH)
  qed
qed

lemma GroupBy_loop_receiver:
  "receiver (snd (GroupBy_loop fields' items res st)) = receiver st"
proof (induction items arbitrary: res st)
  case Nil
  then show ?case by simp
next
  case (Cons item items)
  obtain r st' where k: "keyParts_loop item fields' [] st = (r, st')" by (cases "keyParts_loop item fields' [] st")
  then have "receiver st' = receiver st"
    using keyParts_loop_receiver[of item fields' "[]" st] by simp
  with k Cons.IH show ?case
    by (cases r) (simp_all add: Let_def)
qed

lemma GroupBy_loop_eq:
  "fst (GroupBy_loop fields' items res st) =
     (if list_all (has_Bill_for fields') items then Return (group_sum fields' items res)
      else Panic NilPointerDereference)"
proof (induction items arbitrary: res st)
  case Nil
  then show ?case by (simp add: group_sum_def)
next
  case (Cons item items)
  show ?case
  proof (cases "has_Bill_for fields' item")
    case True
    then show ?thesis
      by (simp add: keyParts_loop_eq Cons.IH Let_def group_sum_def composite_key_def)
  next
    case False
    obtain r st' where k: "keyParts_loop item fields' [] st = (r, st')"
      by (cases "keyParts_loop item fields' [] st")
    with keyParts_loop_panic[OF False, of "[]" st] have "r = Panic NilPointerDereference" by simp
    with k False show ?thesis by simp
  qed
qed

lemma GroupBy_eq:
  "fst (GroupBy fields' s e st) =
     (if list_all (has_Bill_for fields') (fst (FilterByTime s e st))
      then Return (group_sum fields' (fst (FilterByTime s e st)) Map.empty)
      else Panic NilPointerDereference)"
  by (simp add: GroupBy_def GroupBy_loop_eq split: prod.splits)

lemma group_sum_filter:
  "group_sum fields' (filter (\<lambda>item. 0 < UnblendedCost item) items) res = group_sum fields' items res"
  unfolding group_sum_def
  by (induction items arbitrary: res) auto

lemma dom_group_sum:
  "dom (group_sum fields' items res) =
     dom res \<union> composite_key fields' ` {item \<in> set items. 0 < UnblendedCost item}"
  unfolding group_sum_def
  by (induction items arbitrary: res) (auto simp: add_cost_def)

lemma sample_billed_sel [simp]:
  "UID (sample_billed u s e p op c) = of_nat u" "Start (sample_billed u s e p op c) = s"
  "End (sample_billed u s e p op c) = e" "ProductCode (sample_billed u s e p op c) = p"
  "Operation (sample_billed u s e p op c) = op" "UnblendedCost (sample_billed u s e p op c) = c"
  "Bill (sample_billed u s e p op c) = None"
  by (simp_all add: sample_billed_def sample_item_def new_LineItem_def)

lemma sample_store_receiver:
  "receiver sample_store =
     \<lparr>LineItems = [0 \<mapsto> [sample_billed 1 0 10 ''A'' ''Run'' 10, sample_billed 2 0 10 ''C'' ''Run'' 0]],
      TimePts = [0]\<rparr>"
  by (simp add: sample_store_def ingest_def AddLineItem_def sample_state_def empty_Report_def
      insert_TimePt_def go_copy_def)

lemma sample_store_window:
  "fst (FilterByTime 0 100 sample_store) =
     [sample_billed 1 0 10 ''A'' ''Run'' 10, sample_billed 2 0 10 ''C'' ''Run'' 0]"
  by (simp add: FilterByTime_concat sample_store_receiver bucket_def)

text \<open>
  C8. Neither query changes the store: \<open>FilterByTime\<close> returns the state it was given,
  and after \<open>GroupBy\<close> the Report (its \<open>LineItems\<close> map and its \<open>TimePts\<close>) is the one
  before the call; only the logger may have grown.
\<close>

theorem queries_do_not_mutate:
  "snd (FilterByTime s e st) = st \<and>
   receiver (snd (GroupBy fields' s e st)) = receiver st \<and>
   LineItems (receiver (snd (GroupBy fields' s e st))) = LineItems (receiver st) \<and>
   TimePts (receiver (snd (GroupBy fields' s e st))) = TimePts (receiver st)"
proof -
  have f: "snd (FilterByTime s e st) = st" by (simp add: FilterByTime_def Let_def)
  have "snd (GroupBy fields' s e st)
          = snd (GroupBy_loop fields' (fst (FilterByTime s e st)) Map.empty (snd (FilterByTime s e st)))"
    by (simp add: GroupBy_def split: prod.splits)
  then have "receiver (snd (GroupBy fields' s e st)) = receiver st"
    by (simp add: GroupBy_loop_receiver f)
  with f show ?thesis by simp
qed

theorem queries_do_not_mutate_witness:
  "snd (FilterByTime 0 100 sample_store) = sample_store \<and>
   receiver (snd (GroupBy [''bogus''] 0 100 sample_store)) = receiver sample_store \<and>
   logger (snd (GroupBy [''bogus''] 0 100 sample_store))
     = logger sample_store @ [UnsupportedField ''bogus'', UnsupportedField ''bogus'']"
proof -
  have "logger (snd (GroupBy [''bogus''] 0 100 sample_store))
     = logger sample_store @ [UnsupportedField ''bogus'', UnsupportedField ''bogus'']"
  proof -
    have "FilterByTime 0 100 sample_store = (fst (FilterByTime 0 100 sample_store), sample_store)"
      by (simp add: FilterByTime_def Let_def)
    then show ?thesis
      by (simp add: GroupBy_def sample_store_window Let_def)
  qed
  with queries_do_not_mutate[of 0 100 sample_store "[''bogus'']"] show ?thesis by simp
qed

text \<open>The example of the specification: costs 10, 5 and 3 under the product codes A, A, B.\<close>

lemma group_by_sum_example:
  "fst (GroupBy [''lineItem/ProductCode''] 0 100
      (ingest [sample_billed 1 0 10 ''A'' ''Run'' 10, sample_billed 2 0 10 ''A'' ''Run'' 5,
               sample_billed 3 5 10 ''B'' ''Run'' 3] sample_state))
     = Return [''A'' \<mapsto> 15, ''B'' \<mapsto> 3]"
proof -
  have r: "receiver (ingest [sample_billed 1 0 10 ''A'' ''Run'' 10, sample_billed 2 0 10 ''A'' ''Run'' 5,
               sample_billed 3 5 10 ''B'' ''Run'' 3] sample_state)
     = \<lparr>LineItems = [0 \<mapsto> [sample_billed 1 0 10 ''A'' ''Run'' 10, sample_billed 2 0 10 ''A'' ''Run'' 5],
                       5 \<mapsto> [sample_billed 3 5 10 ''B'' ''Run'' 3]],
        TimePts = [0, 5]\<rparr>"
    by (simp add: ingest_def AddLineItem_def sample_state_def empty_Report_def
        insert_TimePt_def go_copy_def After_def)
  have w: "fst (FilterByTime 0 100 (ingest [sample_billed 1 0 10 ''A'' ''Run'' 10,
               sample_billed 2 0 10 ''A'' ''Run'' 5, sample_billed 3 5 10 ''B'' ''Run'' 3] sample_state))
     = [sample_billed 1 0 10 ''A'' ''Run'' 10, sample_billed 2 0 10 ''A'' ''Run'' 5,
        sample_billed 3 5 10 ''B'' ''Run'' 3]"
    unfolding FilterByTime_concat r by (simp add: bucket_def)
  show ?thesis
    unfolding GroupBy_eq w
    by (simp add: has_Bill_for_def group_sum_def composite_key_def recognized_def
        field_string_def add_cost_def)
qed

text \<open>
  C5. An item whose unblended cost is not strictly positive contributes nothing to the
  result of \<open>GroupBy\<close>: the result is the one computed from the strictly positive items
  alone, and a key all of whose items in the window have a cost that is not strictly
  positive is absent from the result map.
\<close>

theorem non_positive_cost_excluded:
  "fst (GroupBy fields' s e st) = Return res \<longrightarrow>
     res = group_sum fields' (filter (\<lambda>item. 0 < UnblendedCost item) (fst (FilterByTime s e st))) Map.empty \<and>
     dom res = composite_key fields' `
        {item \<in> set (fst (FilterByTime s e st)). 0 < UnblendedCost item} \<and>
     ((\<forall>item \<in> set (fst (FilterByTime s e st)).
          composite_key fields' item = key \<longrightarrow> \<not> 0 < UnblendedCost item) \<longrightarrow> res key = None)"
proof
  assume r: "fst (GroupBy fields' s e st) = Return res"
  let ?items = "fst (FilterByTime s e st)"
  from r have res: "res = group_sum fields' ?items Map.empty"
    by (simp add: GroupBy_eq split: if_splits)
  have d: "dom res = composite_key fields' ` {item \<in> set ?items. 0 < UnblendedCost item}"
    unfolding res by (simp add: dom_group_sum)
  have "(\<forall>item \<in> set ?items. composite_key fields' item = key \<longrightarrow> \<not> 0 < UnblendedCost item)
          \<longrightarrow> res key = None"
  proof
    assume "\<forall>item \<in> set ?items. composite_key fields' item = key \<longrightarrow> \<not> 0 < UnblendedCost item"
    then have "key \<notin> dom res" unfolding d by auto
    then show "res key = None" by auto
  qed
  with res d show "res = group_sum fields' (filter (\<lambda>item. 0 < UnblendedCost item) ?items) Map.empty \<and>
     dom res = composite_key fields' ` {item \<in> set ?items. 0 < UnblendedCost item} \<and>
     ((\<forall>item \<in> set ?items. composite_key fields' item = key \<longrightarrow> \<not> 0 < UnblendedCost item)
        \<longrightarrow> res key = None)"
    by (simp add: group_sum_filter)
qed

lemma sample_store_GroupBy:
  "fst (GroupBy [''lineItem/ProductCode''] 0 100 sample_store) = Return [''A'' \<mapsto> 10]"
  by (simp add: GroupBy_eq sample_store_window has_Bill_for_def group_sum_def composite_key_def
      recognized_def field_string_def add_cost_def)

theorem non_positive_cost_excluded_witness:
  "fst (GroupBy [''lineItem/ProductCode''] 0 100 sample_store) = Return [''A'' \<mapsto> 10] \<and>
   sample_billed 2 0 10 ''C'' ''Run'' 0 \<in> set (fst (FilterByTime 0 100 sample_store)) \<and>
   composite_key [''lineItem/ProductCode''] (sample_billed 2 0 10 ''C'' ''Run'' 0) = ''C'' \<and>
   \<not> 0 < UnblendedCost (sample_billed 2 0 10 ''C'' ''Run'' 0) \<and>
   [''A'' \<mapsto> 10 :: real] ''C'' = None \<and>
   dom [''A'' \<mapsto> 10 :: real] = composite_key [''lineItem/ProductCode''] `
      {item \<in> set (fst (FilterByTime 0 100 sample_store)). 0 < UnblendedCost item}"
proof -
  have k: "composite_key [''lineItem/ProductCode''] (sample_billed 2 0 10 ''C'' ''Run'' 0) = ''C''"
    by (simp add: composite_key_def recognized_def field_string_def)
  have m: "sample_billed 2 0 10 ''C'' ''Run'' 0 \<in> set (fst (FilterByTime 0 100 sample_store))"
    by (simp add: sample_store_window)
  have h: "\<forall>item \<in> set (fst (FilterByTime 0 100 sample_store)).
      composite_key [''lineItem/ProductCode''] item = ''C'' \<longrightarrow> \<not> 0 < UnblendedCost item"
    by (simp add: sample_store_window composite_key_def recognized_def field_string_def)
  from non_positive_cost_excluded[of "[''lineItem/ProductCode'']" 0 100 sample_store
      "[''A'' \<mapsto> 10]" "''C''"] sample_store_GroupBy h
  have "[''A'' \<mapsto> 10 :: real] ''C'' = None"
    and "dom [''A'' \<mapsto> 10 :: real] = composite_key [''lineItem/ProductCode''] `
      {item \<in> set (fst (FilterByTime 0 100 sample_store)). 0 < UnblendedCost item}"
    by blast+
  with sample_store_GroupBy k m show ?thesis by simp
qed

lemma composite_key_skip:
  "\<not> recognized f \<Longrightarrow> composite_key (pre @ f # post) item = composite_key (pre @ post) item"
  by (simp add: composite_key_def)

text \<open>
  C6. For an item, the loop of \<open>GroupBy\<close> over the requested fields collects the values
  of the recognized fields in the order requested and logs each other field; the key is
  these values joined by an underscore, and \<open>GroupBy\<close> sums under exactly these keys. A
  field that is not recognized adds nothing to the key, so two such fields give the same
  key. (A request for \<open>bill/PayerAccountId\<close> on an item without Bill panics.)
\<close>

theorem composite_key_construction:
  "(has_Bill_for fields' item \<longrightarrow>
      keyParts_loop item fields' [] st =
        (Return (map (field_string item) (filter recognized fields')),
         st\<lparr>logger := logger st @ map UnsupportedField (filter (\<lambda>f. \<not> recognized f) fields')\<rparr>)) \<and>
   (list_all (has_Bill_for fields') (fst (FilterByTime s e rst)) \<longrightarrow>
      fst (GroupBy fields' s e rst) =
        Return (foldl (\<lambda>res item. if 0 < UnblendedCost item
                         then add_cost res (Join (map (field_string item) (filter recognized fields')) ''_'')
                                (UnblendedCost item)
                         else res)
                  Map.empty (fst (FilterByTime s e rst)))) \<and>
   (\<not> recognized f \<and> \<not> recognized g \<longrightarrow>
      composite_key (pre @ f # post) item = composite_key (pre @ g # post) item \<and>
      composite_key (pre @ f # post) item = composite_key (pre @ post) item)"
proof (intro conjI impI)
  assume "has_Bill_for fields' item"
  then show "keyParts_loop item fields' [] st =
        (Return (map (field_string item) (filter recognized fields')),
         st\<lparr>logger := logger st @ map UnsupportedField (filter (\<lambda>f. \<not> recognized f) fields')\<rparr>)"
    using keyParts_loop_eq[of fields' item "[]" st] by simp
next
  assume "list_all (has_Bill_for fields') (fst (FilterByTime s e rst))"
  then show "fst (GroupBy fields' s e rst) =
        Return (foldl (\<lambda>res item. if 0 < UnblendedCost item
                         then add_cost res (Join (map (field_string item) (filter recognized fields')) ''_'')
                                (UnblendedCost item)
                         else res)
                  Map.empty (fst (FilterByTime s e rst)))"
    unfolding GroupBy_eq group_sum_def composite_key_def by simp
next
  assume "\<not> recognized f \<and> \<not> recognized g"
  then show "composite_key (pre @ f # post) item = composite_key (pre @ g # post) item"
    by (simp add: composite_key_skip)
next
  assume "\<not> recognized f \<and> \<not> recognized g"
  then show "composite_key (pre @ f # post) item = composite_key (pre @ post) item"
    by (simp add: composite_key_skip)
qed

lemma sample_recognized:
  "filter recognized [''lineItem/ProductCode'', ''bogus'', ''lineItem/Operation'']
     = [''lineItem/ProductCode'', ''lineItem/Operation'']"
  "filter (\<lambda>f. \<not> recognized f) [''lineItem/ProductCode'', ''bogus'', ''lineItem/Operation'']
     = [''bogus'']"
  "\<not> recognized ''bogus''" "\<not> recognized ''other''"
  by (simp_all add: recognized_def)

lemma sample_field_string:
  "field_string (sample_billed u s e p op c) ''lineItem/ProductCode'' = p"
  "field_string (sample_billed u s e p op c) ''lineItem/Operation'' = op"
  by (simp_all add: field_string_def)

lemma sample_field_strings:
  "map (field_string (sample_billed u s e p op c)) [''lineItem/ProductCode'', ''lineItem/Operation'']
     = [p, op]"
  by (simp add: field_string_def)

theorem composite_key_construction_witness:
  "has_Bill_for [''lineItem/ProductCode'', ''bogus'', ''lineItem/Operation'']
      (sample_billed 1 0 10 ''A'' ''Run'' 10) \<and>
   keyParts_loop (sample_billed 1 0 10 ''A'' ''Run'' 10)
      [''lineItem/ProductCode'', ''bogus'', ''lineItem/Operation''] [] sample_store =
     (Return [''A'', ''Run''],
      sample_store\<lparr>logger := logger sample_store @ [UnsupportedField ''bogus'']\<rparr>) \<and>
   fst (GroupBy [''lineItem/ProductCode'', ''bogus'', ''lineItem/Operation''] 0 100 sample_store)
     = Return [''A_Run'' \<mapsto> 10] \<and>
   \<not> recognized ''bogus'' \<and> \<not> recognized ''other'' \<and>
   composite_key [''lineItem/ProductCode'', ''bogus'', ''lineItem/Operation'']
       (sample_billed 1 0 10 ''A'' ''Run'' 10) =
   composite_key [''lineItem/ProductCode'', ''other'', ''lineItem/Operation'']
       (sample_billed 1 0 10 ''A'' ''Run'' 10)"
proof -
  let ?fs = "[''lineItem/ProductCode'', ''bogus'', ''lineItem/Operation'']"
  let ?x = "sample_billed 1 0 10 ''A'' ''Run'' 10"
  have h1: "has_Bill_for ?fs ?x" by (simp add: has_Bill_for_def)
  have h2: "list_all (has_Bill_for ?fs) (fst (FilterByTime 0 100 sample_store))"
    unfolding sample_store_window by (simp add: has_Bill_for_def)
  have h3: "\<not> recognized ''bogus'' \<and> \<not> recognized ''other''" by (simp add: sample_recognized)
  note t = composite_key_construction[of ?fs ?x sample_store 0 100 sample_store "''bogus''" "''other''"
      "[''lineItem/ProductCode'']" "[''lineItem/Operation'']"]
  have a: "keyParts_loop ?x ?fs [] sample_store =
     (Return [''A'', ''Run''], sample_store\<lparr>logger := logger sample_store @ [UnsupportedField ''bogus'']\<rparr>)"
    using t[THEN conjunct1, THEN mp, OF h1]
    unfolding sample_recognized sample_field_strings by simp
  have b: "fst (GroupBy ?fs 0 100 sample_store) = Return [''A_Run'' \<mapsto> 10]"
    using t[THEN conjunct2, THEN conjunct1, THEN mp, OF h2]
    unfolding sample_recognized sample_store_window sample_field_strings
    by (simp add: add_cost_def sample_field_string)
  have c: "composite_key ?fs ?x
      = composite_key [''lineItem/ProductCode'', ''other'', ''lineItem/Operation''] ?x"
    using t[THEN conjunct2, THEN conjunct2, THEN mp, OF h3, THEN conjunct1] by simp
  from h1 a b h3 c show ?thesis by blast
qed

section \<open>Decoder\<close>

lemma NewLineItem_Inr_iff:
  "\<not> isl (NewLineItem lib id' ti az bc br cc le lid lit nf op pc rid tt uc ur uaid ua us ue ut) \<longleftrightarrow>
     interval_ok lib ti \<and> float_ok lib bc \<and> float_ok lib br \<and> (float_ok lib nf \<or> nf = []) \<and>
     float_ok lib uc \<and> (float_ok lib ur \<or> ur = []) \<and> time_ok lib us \<and> time_ok lib ue"
  unfolding NewLineItem_def interval_ok_def float_ok_def time_ok_def Let_def
  by (auto split: option.splits prod.splits)

lemma NewLineItem_error_cases:
  "NewLineItem lib id' ti az bc br cc le lid lit nf op pc rid tt uc ur uaid ua us ue ut = Inl err \<Longrightarrow>
   err = Could_not_parse ''normalizationFactor'' \<Longrightarrow> nf \<noteq> [] \<and> \<not> float_ok lib nf"
  "NewLineItem lib id' ti az bc br cc le lid lit nf op pc rid tt uc ur uaid ua us ue ut = Inl err \<Longrightarrow>
   err = Could_not_parse ''unblendedRate'' \<Longrightarrow> ur \<noteq> [] \<and> \<not> float_ok lib ur"
  unfolding NewLineItem_def float_ok_def Let_def
  by (auto split: option.splits prod.splits if_splits)

lemma NewBill_Inr_iff:
  "\<not> isl (NewBill lib entity billType invoiceID pa start end') \<longleftrightarrow>
     uint_ok pa \<and> time_ok lib start \<and> time_ok lib end'"
  unfolding NewBill_def uint_ok_def time_ok_def
  by (auto split: option.splits prod.splits)

text \<open>
  C7. \<open>NewLineItem\<close> succeeds exactly when the interval and the usage dates parse,
  \<open>blendedCost\<close>, \<open>blendedRate\<close> and \<open>unblendedCost\<close> parse, and each of
  \<open>normalizationFactor\<close> and \<open>unblendedRate\<close> parses or is empty: an empty string
  never gives the error of these two fields, a non-empty one that does not parse gives an
  error, as does any failure on the other three. \<open>NewBill\<close> returns an error when
  \<open>payerAccountId\<close> does not parse.
\<close>

theorem asymmetric_numeric_leniency:
  "(nf = [] \<longrightarrow>
      NewLineItem lib id' ti az bc br cc le lid lit nf op pc rid tt uc ur uaid ua us ue ut
        \<noteq> Inl (Could_not_parse ''normalizationFactor'')) \<and>
   (ur = [] \<longrightarrow>
      NewLineItem lib id' ti az bc br cc le lid lit nf op pc rid tt uc ur uaid ua us ue ut
        \<noteq> Inl (Could_not_parse ''unblendedRate'')) \<and>
   (\<not> isl (NewLineItem lib id' ti az bc br cc le lid lit nf op pc rid tt uc ur uaid ua us ue ut) \<longleftrightarrow>
      interval_ok lib ti \<and> float_ok lib bc \<and> float_ok lib br \<and> (float_ok lib nf \<or> nf = []) \<and>
      float_ok lib uc \<and> (float_ok lib ur \<or> ur = []) \<and> time_ok lib us \<and> time_ok lib ue) \<and>
   ((nf \<noteq> [] \<and> \<not> float_ok lib nf) \<or> (ur \<noteq> [] \<and> \<not> float_ok lib ur) \<or>
    \<not> float_ok lib bc \<or> \<not> float_ok lib br \<or> \<not> float_ok lib uc \<longrightarrow>
      isl (NewLineItem lib id' ti az bc br cc le lid lit nf op pc rid tt uc ur uaid ua us ue ut)) \<and>
   (\<not> uint_ok pa \<longrightarrow> isl (NewBill lib entity billType invoiceID pa start end'))"
proof -
  let ?r = "NewLineItem lib id' ti az bc br cc le lid lit nf op pc rid tt uc ur uaid ua us ue ut"
  note iff = NewLineItem_Inr_iff[of lib id' ti az bc br cc le lid lit nf op pc rid tt uc ur uaid ua us ue ut]
  have a: "nf = [] \<longrightarrow> ?r \<noteq> Inl (Could_not_parse ''normalizationFactor'')"
    using NewLineItem_error_cases(1)[of lib id' ti az bc br cc le lid lit nf op pc rid tt uc ur uaid ua us ue ut]
    by blast
  have b: "ur = [] \<longrightarrow> ?r \<noteq> Inl (Could_not_parse ''unblendedRate'')"
    using NewLineItem_error_cases(2)[of lib id' ti az bc br cc le lid lit nf op pc rid tt uc ur uaid ua us ue ut]
    by blast
  have c: "(nf \<noteq> [] \<and> \<not> float_ok lib nf) \<or> (ur \<noteq> [] \<and> \<not> float_ok lib ur) \<or>
    \<not> float_ok lib bc \<or> \<not> float_ok lib br \<or> \<not> float_ok lib uc \<longrightarrow> isl ?r"
    using iff by blast
  have d: "\<not> uint_ok pa \<longrightarrow> isl (NewBill lib entity billType invoiceID pa start end')"
    using NewBill_Inr_iff[of lib entity billType invoiceID pa start end'] by blast
  from a b iff c d show ?thesis by blast
qed

lemma sample_Split:
  "Split ''2020-05-01T00:00:00Z/2020-05-01T01:00:00Z'' CHR ''/''
     = [''2020-05-01T00:00:00Z'', ''2020-05-01T01:00:00Z'']"
  by simp

lemma sample_library_ok:
  "interval_ok sample_library ''2020-05-01T00:00:00Z/2020-05-01T01:00:00Z''"
  "float_ok sample_library ''1.5''" "float_ok sample_library ''2.5''"
  "\<not> float_ok sample_library ''''" "\<not> float_ok sample_library ''x''"
  "time_ok sample_library ''2020-05-01T00:00:00Z''" "time_ok sample_library ''2020-05-01T01:00:00Z''"
  unfolding interval_ok_def sample_Split
  by (simp_all add: float_ok_def time_ok_def sample_library_def)

lemma sample_uint: "\<not> uint_ok ''12a''" "uint_ok ''123456789012''"
  by (simp_all add: uint_ok_def ParseUint_def)

theorem asymmetric_numeric_leniency_witness:
  "\<not> isl (NewLineItem sample_library ''id'' ''2020-05-01T00:00:00Z/2020-05-01T01:00:00Z'' ''az''
      ''1.5'' ''1.5'' ''USD'' ''AWS'' ''desc'' ''Usage'' '''' ''RunInstances'' ''AmazonEC2'' ''i-1''
      '''' ''2.5'' '''' ''123'' ''7'' ''2020-05-01T00:00:00Z'' ''2020-05-01T01:00:00Z'' ''BoxUsage'') \<and>
   isl (NewLineItem sample_library ''id'' ''2020-05-01T00:00:00Z/2020-05-01T01:00:00Z'' ''az''
      ''1.5'' ''1.5'' ''USD'' ''AWS'' ''desc'' ''Usage'' ''x'' ''RunInstances'' ''AmazonEC2'' ''i-1''
      '''' ''2.5'' '''' ''123'' ''7'' ''2020-05-01T00:00:00Z'' ''2020-05-01T01:00:00Z'' ''BoxUsage'') \<and>
   isl (NewLineItem sample_library ''id'' ''2020-05-01T00:00:00Z/2020-05-01T01:00:00Z'' ''az''
      '''' ''1.5'' ''USD'' ''AWS'' ''desc'' ''Usage'' '''' ''RunInstances'' ''AmazonEC2'' ''i-1''
      '''' ''2.5'' '''' ''123'' ''7'' ''2020-05-01T00:00:00Z'' ''2020-05-01T01:00:00Z'' ''BoxUsage'') \<and>
   isl (NewBill sample_library ''AWS'' ''Anniversary'' ''inv'' ''12a''
      ''2020-05-01T00:00:00Z'' ''2020-05-01T01:00:00Z'')"
proof -
  note ok = sample_library_ok
  have a: "\<not> isl (NewLineItem sample_library ''id'' ''2020-05-01T00:00:00Z/2020-05-01T01:00:00Z'' ''az''
      ''1.5'' ''1.5'' ''USD'' ''AWS'' ''desc'' ''Usage'' '''' ''RunInstances'' ''AmazonEC2'' ''i-1''
      '''' ''2.5'' '''' ''123'' ''7'' ''2020-05-01T00:00:00Z'' ''2020-05-01T01:00:00Z'' ''BoxUsage'')"
    using asymmetric_numeric_leniency[of "''''" sample_library "''id''"
        "''2020-05-01T00:00:00Z/2020-05-01T01:00:00Z''" "''az''" "''1.5''" "''1.5''" "''USD''" "''AWS''"
        "''desc''" "''Usage''" "''RunInstances''" "''AmazonEC2''" "''i-1''" "''''" "''2.5''" "''''"
        "''123''" "''7''" "''2020-05-01T00:00:00Z''" "''2020-05-01T01:00:00Z''" "''BoxUsage''"
        "''12a''" "''AWS''" "''Anniversary''" "''inv''" "''2020-05-01T00:00:00Z''" "''2020-05-01T01:00:00Z''"]
      ok by blast
  have b: "isl (NewLineItem sample_library ''id'' ''2020-05-01T00:00:00Z/2020-05-01T01:00:00Z'' ''az''
      ''1.5'' ''1.5'' ''USD'' ''AWS'' ''desc'' ''Usage'' ''x'' ''RunInstances'' ''AmazonEC2'' ''i-1''
      '''' ''2.5'' '''' ''123'' ''7'' ''2020-05-01T00:00:00Z'' ''2020-05-01T01:00:00Z'' ''BoxUsage'')"
    using asymmetric_numeric_leniency[of "''x''" sample_library "''id''"
        "''2020-05-01T00:00:00Z/2020-05-01T01:00:00Z''" "''az''" "''1.5''" "''1.5''" "''USD''" "''AWS''"
        "''desc''" "''Usage''" "''RunInstances''" "''AmazonEC2''" "''i-1''" "''''" "''2.5''" "''''"
        "''123''" "''7''" "''2020-05-01T00:00:00Z''" "''2020-05-01T01:00:00Z''" "''BoxUsage''"
        "''12a''" "''AWS''" "''Anniversary''" "''inv''" "''2020-05-01T00:00:00Z''" "''2020-05-01T01:00:00Z''"]
      ok by force
  have c: "isl (NewLineItem sample_library ''id'' ''2020-05-01T00:00:00Z/2020-05-01T01:00:00Z'' ''az''
      '''' ''1.5'' ''USD'' ''AWS'' ''desc'' ''Usage'' '''' ''RunInstances'' ''AmazonEC2'' ''i-1''
      '''' ''2.5'' '''' ''123'' ''7'' ''2020-05-01T00:00:00Z'' ''2020-05-01T01:00:00Z'' ''BoxUsage'')"
    using asymmetric_numeric_leniency[of "''''" sample_library "''id''"
        "''2020-05-01T00:00:00Z/2020-05-01T01:00:00Z''" "''az''" "''''" "''1.5''" "''USD''" "''AWS''"
        "''desc''" "''Usage''" "''RunInstances''" "''AmazonEC2''" "''i-1''" "''''" "''2.5''" "''''"
        "''123''" "''7''" "''2020-05-01T00:00:00Z''" "''2020-05-01T01:00:00Z''" "''BoxUsage''"
        "''12a''" "''AWS''" "''Anniversary''" "''inv''" "''2020-05-01T00:00:00Z''" "''2020-05-01T01:00:00Z''"]
      ok by blast
  have d: "isl (NewBill sample_library ''AWS'' ''Anniversary'' ''inv'' ''12a''
      ''2020-05-01T00:00:00Z'' ''2020-05-01T01:00:00Z'')"
    using asymmetric_numeric_leniency[of "''''" sample_library "''id''"
        "''2020-05-01T00:00:00Z/2020-05-01T01:00:00Z''" "''az''" "''1.5''" "''1.5''" "''USD''" "''AWS''"
        "''desc''" "''Usage''" "''RunInstances''" "''AmazonEC2''" "''i-1''" "''''" "''2.5''" "''''"
        "''123''" "''7''" "''2020-05-01T00:00:00Z''" "''2020-05-01T01:00:00Z''" "''BoxUsage''"
        "''12a''" "''AWS''" "''Anniversary''" "''inv''" "''2020-05-01T00:00:00Z''" "''2020-05-01T01:00:00Z''"]
      sample_uint by blast
  from a b c d show ?thesis by blast
qed

section \<open>Values the decoder stores\<close>

lemma NewLineItem_Inr:
  assumes "NewLineItem lib id' ti az bc br cc le lid lit nf op pc rid tt uc ur uaid ua us ue ut = Inr l"
  shows "BlendedCost l = fst (ParseFloat lib bc)" and "BlendedRate l = fst (ParseFloat lib br)"
    and "AvailabilityZone l = []" and "UsageAmount l = 0"
    and "UsageAccountID l = []" and "UsageType l = []"
  using assms unfolding NewLineItem_def Let_def
  by (auto simp: new_LineItem_def split: option.splits prod.splits if_splits)

lemma NewLineItem0_Inr:
  assumes "NewLineItem0 lib az bc br cc le lid lit nf op pc rid tt uc ur uaid ua us ue ut = Inr l"
  shows "LineItem0.BlendedCost l = fst (ParseFloat lib bc)"
    and "LineItem0.BlendedRate l = fst (ParseFloat lib br)"
  using assms unfolding NewLineItem0_def Let_def
  by (auto simp: new_LineItem0_def split: option.splits prod.splits if_splits)

lemma NewLineItem0_same:
  "NewLineItem0 lib az bc bc cc le lid lit nf op pc rid tt uc ur uaid ua us ue ut = Inr l \<Longrightarrow>
   LineItem0.BlendedRate l = LineItem0.BlendedCost l"
  by (simp add: NewLineItem0_Inr)

lemma NewLineItem_unread:
  "NewLineItem lib id' ti az bc br cc le lid lit nf op pc rid tt uc ur uaid ua us ue ut
     = NewLineItem lib id' ti az' bc br cc le lid lit nf op pc rid tt uc ur uaid' ua' us ue ut'"
  unfolding NewLineItem_def ..

lemma row_LineItem_blended:
  assumes "row_LineItem lib headerIdx parts = Return l"
  shows "BlendedCost l = fst (ParseFloat lib (cell headerIdx parts ''lineItem/BlendedCost''))"
    and "BlendedRate l = fst (ParseFloat lib (cell headerIdx parts ''lineItem/BlendedCost''))"
  using assms unfolding row_LineItem_def
  by (auto split: if_splits sum.splits outcome.splits dest: NewLineItem_Inr(1,2))

lemma row_LineItemID_blended:
  assumes "row_LineItemID lib headerIdx parts = Return lid"
  shows "same_blended0 lid"
  using assms unfolding row_LineItemID_def same_blended0_def Let_def
  by (auto split: if_splits sum.splits outcome.splits dest!: NewLineItem0_same)

lemma AddLineItem_all_items:
  assumes "P l" and "all_items P (receiver st)"
  shows "all_items P (receiver (AddLineItem l st))"
proof (cases st l rule: AddLineItem_cases)
  case (dup lids)
  then show ?thesis using assms by (simp add: AddLineItem_dup)
next
  case (app lids)
  then show ?thesis using assms by (auto simp: AddLineItem_append all_items_def)
next
  case new
  then show ?thesis using assms by (auto simp: AddLineItem_new all_items_def)
qed

lemma AddLineItemID_all_ids:
  assumes "P l" and "all_ids P (receiver st)"
  shows "all_ids P (receiver (AddLineItemID l st))"
  using assms unfolding AddLineItemID_def Let_def all_ids_def
  by (auto split: option.splits)

lemma NewReport_rows_blended:
  "all_items same_blended (receiver st) \<Longrightarrow> NewReport_rows lib headerIdx rows st = Return st' \<Longrightarrow>
   all_items same_blended (receiver st')"
proof (induction rows arbitrary: st)
  case Nil
  then show ?case by simp
next
  case (Cons row rows)
  from Cons.prems(2) obtain l where l: "row_LineItem lib headerIdx (Split row CHR '','') = Return l"
    and r: "NewReport_rows lib headerIdx rows (AddLineItem l st) = Return st'"
    by (auto split: outcome.splits)
  from row_LineItem_blended[OF l] have "same_blended l" by (simp add: same_blended_def)
  then have "all_items same_blended (receiver (AddLineItem l st))"
    using Cons.prems(1) by (rule AddLineItem_all_items)
  then show ?case using r by (rule Cons.IH)
qed

lemma main0_rows_blended:
  "all_ids same_blended0 (receiver st) \<Longrightarrow> main0_rows lib headerIdx rows st = Return st' \<Longrightarrow>
   all_ids same_blended0 (receiver st')"
proof (induction rows arbitrary: st)
  case Nil
  then show ?case by simp
next
  case (Cons row rows)
  from Cons.prems(2) obtain l where l: "row_LineItemID lib headerIdx (Split row CHR '','') = Return l"
    and r: "main0_rows lib headerIdx rows (AddLineItemID l st) = Return st'"
    by (auto split: outcome.splits)
  from row_LineItemID_blended[OF l] have "same_blended0 l" .
  then have "all_ids same_blended0 (receiver (AddLineItemID l st))"
    using Cons.prems(1) by (rule AddLineItemID_all_ids)
  then show ?case using r by (rule Cons.IH)
qed

lemma NewReport_blended:
  "NewReport lib lines lg = Return st \<Longrightarrow> all_items same_blended (receiver st)"
  unfolding NewReport_def Let_def
  by (erule NewReport_rows_blended[rotated]) (simp add: all_items_def empty_Report_def)

lemma main0_blended:
  "main0 lib lines lg = Return st \<Longrightarrow> all_ids same_blended0 (receiver st)"
  unfolding main0_def Let_def
  by (erule main0_rows_blended[rotated]) (simp add: all_ids_def NewIdentity_def)

section \<open>Reading the rows\<close>

lemma header_index_snoc: "header_index (hs @ [h]) = (header_index hs)(h \<mapsto> length hs)"
  by (simp add: header_index_def)

lemma header_index_lt: "header_index hs name = Some i \<Longrightarrow> i < length hs"
proof (induction hs arbitrary: i rule: rev_induct)
  case Nil
  then show ?case by (simp add: header_index_def)
next
  case (snoc h hs)
  then show ?case by (auto simp: header_index_snoc less_Suc_eq split: if_splits)
qed

lemma column_lt: "hs \<noteq> [] \<Longrightarrow> column (header_index hs) name < length hs"
  by (auto simp: column_def split: option.splits dest: header_index_lt)

lemma in_range_header:
  "hs \<noteq> [] \<Longrightarrow> length hs \<le> length parts \<Longrightarrow> in_range (header_index hs) parts names"
  unfolding in_range_def list_all_iff
  using column_lt[of hs] by (meson less_le_trans)

lemma not_isl_InrE:
  assumes "\<not> isl x"
  obtains y where "x = Inr y"
  using assms by (cases x) auto

lemma sample_Split_lines:
  "Split sample_header_line CHR '','' = sample_headers"
  "Split sample_row_line CHR '','' = sample_parts"
  by (simp_all add: sample_header_line_def sample_row_line_def sample_headers_def sample_parts_def)

lemma sample_column:
  "column (header_index sample_headers) ''identity/TimeInterval'' = 1"
  "column (header_index sample_headers) ''lineItem/BlendedCost'' = 2"
  "column (header_index sample_headers) ''lineItem/NormalizationFactor'' = 4"
  "column (header_index sample_headers) ''lineItem/UnblendedCost'' = 5"
  "column (header_index sample_headers) ''lineItem/UnblendedRate'' = 6"
  "column (header_index sample_headers) ''lineItem/UsageStartDate'' = 7"
  "column (header_index sample_headers) ''lineItem/UsageEndDate'' = 8"
  "column (header_index sample_headers) ''bill/PayerAccountId'' = 9"
  "column (header_index sample_headers) ''bill/BillingPeriodStartDate'' = 10"
  "column (header_index sample_headers) ''bill/BillingPeriodEndDate'' = 11"
  by (simp_all add: column_def header_index_def sample_headers_def upt_rec)

lemma sample_cell:
  "cell (header_index sample_headers) sample_parts ''identity/TimeInterval''
     = ''2020-05-01T00:00:00Z/2020-05-01T01:00:00Z''"
  "cell (header_index sample_headers) sample_parts ''lineItem/BlendedCost'' = ''1.5''"
  "cell (header_index sample_headers) sample_parts ''lineItem/NormalizationFactor'' = ''''"
  "cell (header_index sample_headers) sample_parts ''lineItem/UnblendedCost'' = ''2.5''"
  "cell (header_index sample_headers) sample_parts ''lineItem/UnblendedRate'' = ''''"
  "cell (header_index sample_headers) sample_parts ''lineItem/UsageStartDate'' = ''2020-05-01T00:00:00Z''"
  "cell (header_index sample_headers) sample_parts ''lineItem/UsageEndDate'' = ''2020-05-01T01:00:00Z''"
  "cell (header_index sample_headers) sample_parts ''bill/PayerAccountId'' = ''123456789012''"
  "cell (header_index sample_headers) sample_parts ''bill/BillingPeriodStartDate'' = ''2020-05-01T00:00:00Z''"
  "cell (header_index sample_headers) sample_parts ''bill/BillingPeriodEndDate'' = ''2020-05-01T01:00:00Z''"
  unfolding cell_def sample_column by (simp_all add: sample_parts_def)

lemma sample_in_range: "in_range (header_index sample_headers) sample_parts names"
  by (rule in_range_header) (simp_all add: sample_headers_def sample_parts_def)

lemma sample_row_Bill: "is_Return (row_Bill sample_library (header_index sample_headers) sample_parts)"
proof -
  have "\<not> isl (NewBill sample_library
      (cell (header_index sample_headers) sample_parts ''bill/Entity'')
      (cell (header_index sample_headers) sample_parts ''bill/BillType'')
      (cell (header_index sample_headers) sample_parts ''bill/InvoiceId'')
      (cell (header_index sample_headers) sample_parts ''bill/PayerAccountId'')
      (cell (header_index sample_headers) sample_parts ''bill/BillingPeriodStartDate'')
      (cell (header_index sample_headers) sample_parts ''bill/BillingPeriodEndDate''))"
    unfolding NewBill_Inr_iff sample_cell by (simp add: sample_uint sample_library_ok)
  then obtain b where "NewBill sample_library
      (cell (header_index sample_headers) sample_parts ''bill/Entity'')
      (cell (header_index sample_headers) sample_parts ''bill/BillType'')
      (cell (header_index sample_headers) sample_parts ''bill/InvoiceId'')
      (cell (header_index sample_headers) sample_parts ''bill/PayerAccountId'')
      (cell (header_index sample_headers) sample_parts ''bill/BillingPeriodStartDate'')
      (cell (header_index sample_headers) sample_parts ''bill/BillingPeriodEndDate'') = Inr b"
    by (rule not_isl_InrE)
  then show ?thesis
    unfolding row_Bill_def by (simp add: sample_in_range)
qed

lemma sample_row_LineItem:
  "is_Return (row_LineItem sample_library (header_index sample_headers) sample_parts)"
proof -
  have "\<not> isl (NewLineItem sample_library
                  (cell (header_index sample_headers) sample_parts ''identity/LineItemId'')
                  (cell (header_index sample_headers) sample_parts ''identity/TimeInterval'')
                  (cell (header_index sample_headers) sample_parts ''lineItem/AvailabilityZone'')
                  (cell (header_index sample_headers) sample_parts ''lineItem/BlendedCost'')
                  (cell (header_index sample_headers) sample_parts ''lineItem/BlendedCost'')
                  (cell (header_index sample_headers) sample_parts ''lineItem/CurrencyCode'')
                  (cell (header_index sample_headers) sample_parts ''lineItem/LegalEntity'')
                  (cell (header_index sample_headers) sample_parts ''lineItem/LineItemDescription'')
                  (cell (header_index sample_headers) sample_parts ''lineItem/LineItemType'')
                  (cell (header_index sample_headers) sample_parts ''lineItem/NormalizationFactor'')
                  (cell (header_index sample_headers) sample_parts ''lineItem/Operation'')
                  (cell (header_index sample_headers) sample_parts ''lineItem/ProductCode'')
                  (cell (header_index sample_headers) sample_parts ''lineItem/ResourceId'')
                  (cell (header_index sample_headers) sample_parts ''lineItem/TaxType'')
                  (cell (header_index sample_headers) sample_parts ''lineItem/UnblendedCost'')
                  (cell (header_index sample_headers) sample_parts ''lineItem/UnblendedRate'')
                  (cell (header_index sample_headers) sample_parts ''lineItem/UsageAccountId'')
                  (cell (header_index sample_headers) sample_parts ''lineItem/UsageAmount'')
                  (cell (header_index sample_headers) sample_parts ''lineItem/UsageStartDate'')
                  (cell (header_index sample_headers) sample_parts ''lineItem/UsageEndDate'')
                  (cell (header_index sample_headers) sample_parts ''lineItem/UsageType''))"
    unfolding NewLineItem_Inr_iff sample_cell by (simp add: sample_library_ok)
  then obtain l where "NewLineItem sample_library
                  (cell (header_index sample_headers) sample_parts ''identity/LineItemId'')
                  (cell (header_index sample_headers) sample_parts ''identity/TimeInterval'')
                  (cell (header_index sample_headers) sample_parts ''lineItem/AvailabilityZone'')
                  (cell (header_index sample_headers) sample_parts ''lineItem/BlendedCost'')
                  (cell (header_index sample_headers) sample_parts ''lineItem/BlendedCost'')
                  (cell (header_index sample_headers) sample_parts ''lineItem/CurrencyCode'')
                  (cell (header_index sample_headers) sample_parts ''lineItem/LegalEntity'')
                  (cell (header_index sample_headers) sample_parts ''lineItem/LineItemDescription'')
                  (cell (header_index sample_headers) sample_parts ''lineItem/LineItemType'')
                  (cell (header_index sample_headers) sample_parts ''lineItem/NormalizationFactor'')
                  (cell (header_index sample_headers) sample_parts ''lineItem/Operation'')
                  (cell (header_index sample_headers) sample_parts ''lineItem/ProductCode'')
                  (cell (header_index sample_headers) sample_parts ''lineItem/ResourceId'')
                  (cell (header_index sample_headers) sample_parts ''lineItem/TaxType'')
                  (cell (header_index sample_headers) sample_parts ''lineItem/UnblendedCost'')
                  (cell (header_index sample_headers) sample_parts ''lineItem/UnblendedRate'')
                  (cell (header_index sample_headers) sample_parts ''lineItem/UsageAccountId'')
                  (cell (header_index sample_headers) sample_parts ''lineItem/UsageAmount'')
                  (cell (header_index sample_headers) sample_parts ''lineItem/UsageStartDate'')
                  (cell (header_index sample_headers) sample_parts ''lineItem/UsageEndDate'')
                  (cell (header_index sample_headers) sample_parts ''lineItem/UsageType'') = Inr l"
    by (rule not_isl_InrE)
  moreover obtain b where "row_Bill sample_library (header_index sample_headers) sample_parts = Return b"
    using sample_row_Bill by (auto simp: is_Return_def)
  ultimately show ?thesis
    unfolding row_LineItem_def by (simp add: sample_in_range)
qed

lemma sample_NewReport:
  "NewReport sample_library sample_lines lg =
     Return (AddLineItem (returned (row_LineItem sample_library (header_index sample_headers) sample_parts))
        \<lparr>receiver = empty_Report, logger = lg\<rparr>)"
proof -
  obtain l where "row_LineItem sample_library (header_index sample_headers) sample_parts = Return l"
    using sample_row_LineItem by (auto simp: is_Return_def)
  then show ?thesis
    by (simp add: NewReport_def sample_lines_def sample_Split_lines Let_def)
qed

lemma NewLineItem0_Inr_iff:
  "\<not> isl (NewLineItem0 lib az bc br cc le lid lit nf op pc rid tt uc ur uaid ua us ue ut) \<longleftrightarrow>
     float_ok lib bc \<and> float_ok lib br \<and> (float_ok lib nf \<or> nf = []) \<and>
     float_ok lib uc \<and> (float_ok lib ur \<or> ur = []) \<and> time_ok lib us \<and> time_ok lib ue"
  unfolding NewLineItem0_def float_ok_def time_ok_def Let_def
  by (auto split: option.splits prod.splits)

lemma NewLineItemID_Inr_iff:
  "\<not> isl (NewLineItemID lib id' ti) \<longleftrightarrow> interval_ok lib ti"
  unfolding NewLineItemID_def interval_ok_def time_ok_def Let_def
  by (auto split: option.splits)

lemma sample_row_LineItemID:
  "is_Return (row_LineItemID sample_library (header_index sample_headers) sample_parts)"
proof -
  have "\<not> isl (NewLineItemID sample_library
      (cell (header_index sample_headers) sample_parts ''identity/LineItemId'')
      (cell (header_index sample_headers) sample_parts ''identity/TimeInterval''))"
    unfolding NewLineItemID_Inr_iff sample_cell by (simp add: sample_library_ok)
  then obtain l where l: "NewLineItemID sample_library
      (cell (header_index sample_headers) sample_parts ''identity/LineItemId'')
      (cell (header_index sample_headers) sample_parts ''identity/TimeInterval'') = Inr l"
    by (rule not_isl_InrE)
  obtain b where b: "row_Bill sample_library (header_index sample_headers) sample_parts = Return b"
    using sample_row_Bill by (auto simp: is_Return_def)
  have "\<not> isl (NewLineItem0 sample_library
                  (cell (header_index sample_headers) sample_parts ''lineItem/AvailabilityZone'')
                  (cell (header_index sample_headers) sample_parts ''lineItem/BlendedCost'')
                  (cell (header_index sample_headers) sample_parts ''lineItem/BlendedCost'')
                  (cell (header_index sample_headers) sample_parts ''lineItem/CurrencyCode'')
                  (cell (header_index sample_headers) sample_parts ''lineItem/LegalEntity'')
                  (cell (header_index sample_headers) sample_parts ''lineItem/LineItemDescription'')
                  (cell (header_index sample_headers) sample_parts ''lineItem/LineItemType'')
                  (cell (header_index sample_headers) sample_parts ''lineItem/NormalizationFactor'')
                  (cell (header_index sample_headers) sample_parts ''lineItem/Operation'')
                  (cell (header_index sample_headers) sample_parts ''lineItem/ProductCode'')
                  (cell (header_index sample_headers) sample_parts ''lineItem/ResourceId'')
                  (cell (header_index sample_headers) sample_parts ''lineItem/TaxType'')
                  (cell (header_index sample_headers) sample_parts ''lineItem/UnblendedCost'')
                  (cell (header_index sample_headers) sample_parts ''lineItem/UnblendedRate'')
                  (cell (header_index sample_headers) sample_parts ''lineItem/UsageAccountId'')
                  (cell (header_index sample_headers) sample_parts ''lineItem/UsageAmount'')
                  (cell (header_index sample_headers) sample_parts ''lineItem/UsageStartDate'')
                  (cell (header_index sample_headers) sample_parts ''lineItem/UsageEndDate'')
                  (cell (header_index sample_headers) sample_parts ''lineItem/UsageType''))"
    unfolding NewLineItem0_Inr_iff sample_cell by (simp add: sample_library_ok)
  then obtain li where "NewLineItem0 sample_library
                  (cell (header_index sample_headers) sample_parts ''lineItem/AvailabilityZone'')
                  (cell (header_index sample_headers) sample_parts ''lineItem/BlendedCost'')
                  (cell (header_index sample_headers) sample_parts ''lineItem/BlendedCost'')
                  (cell (header_index sample_headers) sample_parts ''lineItem/CurrencyCode'')
                  (cell (header_index sample_headers) sample_parts ''lineItem/LegalEntity'')
                  (cell (header_index sample_headers) sample_parts ''lineItem/LineItemDescription'')
                  (cell (header_index sample_headers) sample_parts ''lineItem/LineItemType'')
                  (cell (header_index sample_headers) sample_parts ''lineItem/NormalizationFactor'')
                  (cell (header_index sample_headers) sample_parts ''lineItem/Operation'')
                  (cell (header_index sample_headers) sample_parts ''lineItem/ProductCode'')
                  (cell (header_index sample_headers) sample_parts ''lineItem/ResourceId'')
                  (cell (header_index sample_headers) sample_parts ''lineItem/TaxType'')
                  (cell (header_index sample_headers) sample_parts ''lineItem/UnblendedCost'')
                  (cell (header_index sample_headers) sample_parts ''lineItem/UnblendedRate'')
                  (cell (header_index sample_headers) sample_parts ''lineItem/UsageAccountId'')
                  (cell (header_index sample_headers) sample_parts ''lineItem/UsageAmount'')
                  (cell (header_index sample_headers) sample_parts ''lineItem/UsageStartDate'')
                  (cell (header_index sample_headers) sample_parts ''lineItem/UsageEndDate'')
                  (cell (header_index sample_headers) sample_parts ''lineItem/UsageType'') = Inr li"
    by (rule not_isl_InrE)
  with l b show ?thesis
    unfolding row_LineItemID_def by (simp add: sample_in_range Let_def)
qed

lemma sample_main0:
  "main0 sample_library sample_lines lg =
     Return (AddLineItemID (returned (row_LineItemID sample_library (header_index sample_headers) sample_parts))
        \<lparr>receiver = NewIdentity, logger = lg\<rparr>)"
proof -
  obtain l where "row_LineItemID sample_library (header_index sample_headers) sample_parts = Return l"
    using sample_row_LineItemID by (auto simp: is_Return_def)
  then show ?thesis
    by (simp add: main0_def sample_lines_def sample_Split_lines Let_def)
qed

lemma is_Return_eq: "is_Return x \<Longrightarrow> x = Return (returned x)"
  by (cases x) auto

section \<open>The blended columns\<close>

lemma NewLineItem0_blended:
  "NewLineItem0 lib az bc br cc le lid lit nf op pc rid tt uc ur uaid ua us ue ut = Inr l \<Longrightarrow>
   LineItem0.BlendedCost l = fst (ParseFloat lib bc) \<and> LineItem0.BlendedRate l = fst (ParseFloat lib br)"
  by (simp add: NewLineItem0_Inr)

lemma row_LineItemID_column:
  assumes "row_LineItemID lib headerIdx parts = Return lid"
  shows "\<exists>li. LineItemID.LineItem lid = Some li \<and>
     LineItem0.BlendedCost li = fst (ParseFloat lib (cell headerIdx parts ''lineItem/BlendedCost'')) \<and>
     LineItem0.BlendedRate li = fst (ParseFloat lib (cell headerIdx parts ''lineItem/BlendedCost''))"
  using assms unfolding row_LineItemID_def Let_def
  by (auto split: if_splits sum.splits outcome.splits dest!: NewLineItem0_blended)

lemma NewReport_rows_ingest:
  "NewReport_rows lib headerIdx rows st = Return st' \<Longrightarrow> st' = ingest (decoded lib headerIdx rows) st"
proof (induction rows arbitrary: st)
  case Nil
  then show ?case by (simp add: ingest_def decoded_def)
next
  case (Cons row rows)
  from Cons.prems obtain l where l: "row_LineItem lib headerIdx (Split row CHR '','') = Return l"
    and r: "NewReport_rows lib headerIdx rows (AddLineItem l st) = Return st'"
    by (auto split: outcome.splits)
  from Cons.IH[OF r] l show ?case by (simp add: ingest_def decoded_def)
qed

lemma main0_rows_ingest0:
  "main0_rows lib headerIdx rows st = Return st' \<Longrightarrow> st' = ingest0 (decoded0 lib headerIdx rows) st"
proof (induction rows arbitrary: st)
  case Nil
  then show ?case by (simp add: ingest0_def decoded0_def)
next
  case (Cons row rows)
  from Cons.prems obtain l where l: "row_LineItemID lib headerIdx (Split row CHR '','') = Return l"
    and r: "main0_rows lib headerIdx rows (AddLineItemID l st) = Return st'"
    by (auto split: outcome.splits)
  from Cons.IH[OF r] l show ?case by (simp add: ingest0_def decoded0_def)
qed

lemma NewReport_rows_from:
  "all_items (from_BlendedCost lib headerIdx R) (receiver st) \<Longrightarrow> set rows \<subseteq> set R \<Longrightarrow>
   NewReport_rows lib headerIdx rows st = Return st' \<Longrightarrow>
   all_items (from_BlendedCost lib headerIdx R) (receiver st')"
proof (induction rows arbitrary: st)
  case Nil
  then show ?case by simp
next
  case (Cons row rows)
  from Cons.prems(3) obtain l where l: "row_LineItem lib headerIdx (Split row CHR '','') = Return l"
    and r: "NewReport_rows lib headerIdx rows (AddLineItem l st) = Return st'"
    by (auto split: outcome.splits)
  from Cons.prems(2) have row: "row \<in> set R" and rows: "set rows \<subseteq> set R" by auto
  from row_LineItem_blended[OF l] row have "from_BlendedCost lib headerIdx R l"
    unfolding from_BlendedCost_def by blast
  then have "all_items (from_BlendedCost lib headerIdx R) (receiver (AddLineItem l st))"
    using Cons.prems(1) by (rule AddLineItem_all_items)
  then show ?case using rows r by (rule Cons.IH)
qed

lemma main0_rows_from:
  "all_ids (from_BlendedCost0 lib headerIdx R) (receiver st) \<Longrightarrow> set rows \<subseteq> set R \<Longrightarrow>
   main0_rows lib headerIdx rows st = Return st' \<Longrightarrow>
   all_ids (from_BlendedCost0 lib headerIdx R) (receiver st')"
proof (induction rows arbitrary: st)
  case Nil
  then show ?case by simp
next
  case (Cons row rows)
  from Cons.prems(3) obtain l where l: "row_LineItemID lib headerIdx (Split row CHR '','') = Return l"
    and r: "main0_rows lib headerIdx rows (AddLineItemID l st) = Return st'"
    by (auto split: outcome.splits)
  from Cons.prems(2) have row: "row \<in> set R" and rows: "set rows \<subseteq> set R" by auto
  from row_LineItemID_column[OF l] row have "from_BlendedCost0 lib headerIdx R l"
    unfolding from_BlendedCost0_def by auto
  then have "all_ids (from_BlendedCost0 lib headerIdx R) (receiver (AddLineItemID l st))"
    using Cons.prems(1) by (rule AddLineItemID_all_ids)
  then show ?case using rows r by (rule Cons.IH)
qed

lemma NewReport_from:
  assumes "NewReport lib lines lg = Return st"
  shows "st = ingest (decoded lib (headerIdx_of lines) (tl lines)) \<lparr>receiver = empty_Report, logger = lg\<rparr>"
    and "all_items (from_BlendedCost lib (headerIdx_of lines) (tl lines)) (receiver st)"
proof -
  from assms have r: "NewReport_rows lib (headerIdx_of lines) (tl lines)
      \<lparr>receiver = empty_Report, logger = lg\<rparr> = Return st"
    by (simp add: NewReport_def headerIdx_of_def Let_def)
  show "st = ingest (decoded lib (headerIdx_of lines) (tl lines)) \<lparr>receiver = empty_Report, logger = lg\<rparr>"
    using r by (rule NewReport_rows_ingest)
  have "all_items (from_BlendedCost lib (headerIdx_of lines) (tl lines))
      (receiver \<lparr>receiver = empty_Report, logger = lg\<rparr>)"
    by (simp add: all_items_def empty_Report_def)
  then show "all_items (from_BlendedCost lib (headerIdx_of lines) (tl lines)) (receiver st)"
    using subset_refl r by (rule NewReport_rows_from)
qed

lemma main0_from:
  assumes "main0 lib lines lg = Return st"
  shows "st = ingest0 (decoded0 lib (headerIdx_of lines) (tl lines)) \<lparr>receiver = NewIdentity, logger = lg\<rparr>"
    and "all_ids (from_BlendedCost0 lib (headerIdx_of lines) (tl lines)) (receiver st)"
proof -
  from assms have r: "main0_rows lib (headerIdx_of lines) (tl lines)
      \<lparr>receiver = NewIdentity, logger = lg\<rparr> = Return st"
    by (simp add: main0_def headerIdx_of_def Let_def)
  show "st = ingest0 (decoded0 lib (headerIdx_of lines) (tl lines)) \<lparr>receiver = NewIdentity, logger = lg\<rparr>"
    using r by (rule main0_rows_ingest0)
  have "all_ids (from_BlendedCost0 lib (headerIdx_of lines) (tl lines))
      (receiver \<lparr>receiver = NewIdentity, logger = lg\<rparr>)"
    by (simp add: all_ids_def NewIdentity_def)
  then show "all_ids (from_BlendedCost0 lib (headerIdx_of lines) (tl lines)) (receiver st)"
    using subset_refl r by (rule main0_rows_from)
qed

text \<open>
  C9. \<open>NewReport\<close>, and likewise the loop of the first \<open>main\<close>, passes the cell of the
  column \<open>lineItem/BlendedCost\<close> for both \<open>blendedCost\<close> and \<open>blendedRate\<close>. A row
  that is decoded therefore has BlendedCost and BlendedRate both equal to the value parsed
  from that column; the store returned is the one built from the decoded rows, and each of
  its items (each LineItemID of the Identity, in the first \<open>main\<close>) has BlendedRate =
  BlendedCost, the value of that column in one of the rows.
\<close>

theorem blended_rate_is_blended_cost:
  "(row_LineItem lib headerIdx parts = Return l \<longrightarrow>
      BlendedRate l = BlendedCost l \<and>
      BlendedCost l = fst (ParseFloat lib (cell headerIdx parts ''lineItem/BlendedCost'')) \<and>
      BlendedRate l = fst (ParseFloat lib (cell headerIdx parts ''lineItem/BlendedCost''))) \<and>
   (NewReport lib lines lg = Return st \<longrightarrow>
      st = ingest (decoded lib (headerIdx_of lines) (tl lines)) \<lparr>receiver = empty_Report, logger = lg\<rparr> \<and>
      all_items same_blended (receiver st) \<and>
      all_items (from_BlendedCost lib (headerIdx_of lines) (tl lines)) (receiver st)) \<and>
   (row_LineItemID lib headerIdx parts = Return lid \<longrightarrow>
      same_blended0 lid \<and>
      (\<exists>li. LineItemID.LineItem lid = Some li \<and>
         LineItem0.BlendedCost li = fst (ParseFloat lib (cell headerIdx parts ''lineItem/BlendedCost'')) \<and>
         LineItem0.BlendedRate li = fst (ParseFloat lib (cell headerIdx parts ''lineItem/BlendedCost'')))) \<and>
   (main0 lib lines lg = Return ist \<longrightarrow>
      ist = ingest0 (decoded0 lib (headerIdx_of lines) (tl lines)) \<lparr>receiver = NewIdentity, logger = lg\<rparr> \<and>
      all_ids same_blended0 (receiver ist) \<and>
      all_ids (from_BlendedCost0 lib (headerIdx_of lines) (tl lines)) (receiver ist))"
proof (intro conjI impI)
  assume a: "row_LineItem lib headerIdx parts = Return l"
  from row_LineItem_blended[OF a]
  show "BlendedRate l = BlendedCost l"
    and "BlendedCost l = fst (ParseFloat lib (cell headerIdx parts ''lineItem/BlendedCost''))"
    and "BlendedRate l = fst (ParseFloat lib (cell headerIdx parts ''lineItem/BlendedCost''))"
    by simp_all
next
  assume a: "NewReport lib lines lg = Return st"
  show "st = ingest (decoded lib (headerIdx_of lines) (tl lines)) \<lparr>receiver = empty_Report, logger = lg\<rparr>"
    using a by (rule NewReport_from(1))
  show "all_items same_blended (receiver st)" using a by (rule NewReport_blended)
  show "all_items (from_BlendedCost lib (headerIdx_of lines) (tl lines)) (receiver st)"
    using a by (rule NewReport_from(2))
next
  assume a: "row_LineItemID lib headerIdx parts = Return lid"
  show "same_blended0 lid" using a by (rule row_LineItemID_blended)
  show "\<exists>li. LineItemID.LineItem lid = Some li \<and>
         LineItem0.BlendedCost li = fst (ParseFloat lib (cell headerIdx parts ''lineItem/BlendedCost'')) \<and>
         LineItem0.BlendedRate li = fst (ParseFloat lib (cell headerIdx parts ''lineItem/BlendedCost''))"
    using a by (rule row_LineItemID_column)
next
  assume a: "main0 lib lines lg = Return ist"
  show "ist = ingest0 (decoded0 lib (headerIdx_of lines) (tl lines)) \<lparr>receiver = NewIdentity, logger = lg\<rparr>"
    using a by (rule main0_from(1))
  show "all_ids same_blended0 (receiver ist)" using a by (rule main0_blended)
  show "all_ids (from_BlendedCost0 lib (headerIdx_of lines) (tl lines)) (receiver ist)"
    using a by (rule main0_from(2))
qed

lemma sample_rate_cell:
  "cell (header_index sample_headers) sample_parts ''lineItem/BlendedRate'' = ''2.5''"
  by (simp add: cell_def column_def header_index_def sample_headers_def sample_parts_def upt_rec)

theorem blended_rate_is_blended_cost_witness:
  "is_Return (row_LineItem sample_library (header_index sample_headers) sample_parts) \<and>
   cell (header_index sample_headers) sample_parts ''lineItem/BlendedCost'' = ''1.5'' \<and>
   cell (header_index sample_headers) sample_parts ''lineItem/BlendedRate'' = ''2.5'' \<and>
   BlendedCost (returned (row_LineItem sample_library (header_index sample_headers) sample_parts)) = 3 / 2 \<and>
   BlendedRate (returned (row_LineItem sample_library (header_index sample_headers) sample_parts)) = 3 / 2 \<and>
   is_Return (NewReport sample_library sample_lines []) \<and>
   bucket (receiver (returned (NewReport sample_library sample_lines [])))
      (Start (returned (row_LineItem sample_library (header_index sample_headers) sample_parts)))
     = [returned (row_LineItem sample_library (header_index sample_headers) sample_parts)] \<and>
   all_items same_blended (receiver (returned (NewReport sample_library sample_lines []))) \<and>
   all_items (from_BlendedCost sample_library (headerIdx_of sample_lines) (tl sample_lines))
      (receiver (returned (NewReport sample_library sample_lines []))) \<and>
   is_Return (row_LineItemID sample_library (header_index sample_headers) sample_parts) \<and>
   map_option LineItem0.BlendedCost (LineItemID.LineItem
      (returned (row_LineItemID sample_library (header_index sample_headers) sample_parts))) = Some (3 / 2) \<and>
   map_option LineItem0.BlendedRate (LineItemID.LineItem
      (returned (row_LineItemID sample_library (header_index sample_headers) sample_parts))) = Some (3 / 2) \<and>
   is_Return (main0 sample_library sample_lines []) \<and>
   LineItemIDs (receiver (returned (main0 sample_library sample_lines [])))
      (LineItemID.Start (returned (row_LineItemID sample_library (header_index sample_headers) sample_parts)))
     = Some [returned (row_LineItemID sample_library (header_index sample_headers) sample_parts)] \<and>
   all_ids same_blended0 (receiver (returned (main0 sample_library sample_lines []))) \<and>
   all_ids (from_BlendedCost0 sample_library (headerIdx_of sample_lines) (tl sample_lines))
      (receiver (returned (main0 sample_library sample_lines [])))"
proof -
  let ?hi = "header_index sample_headers"
  let ?row = "row_LineItem sample_library ?hi sample_parts"
  let ?rowid = "row_LineItemID sample_library ?hi sample_parts"
  let ?rep = "NewReport sample_library sample_lines []"
  let ?ide = "main0 sample_library sample_lines []"
  let ?col = "fst (ParseFloat sample_library (cell ?hi sample_parts ''lineItem/BlendedCost''))"
  have r: "?row = Return (returned ?row)" using sample_row_LineItem by (rule is_Return_eq)
  have r0: "?rowid = Return (returned ?rowid)" using sample_row_LineItemID by (rule is_Return_eq)
  have n: "?rep = Return (returned ?rep)" by (simp add: sample_NewReport)
  have m: "?ide = Return (returned ?ide)" by (simp add: sample_main0)
  note t = blended_rate_is_blended_cost[of sample_library ?hi sample_parts "returned ?row"
      sample_lines "[]" "returned ?rep" "returned ?rowid" "returned ?ide"]
  have c: "?col = 3 / 2"
    unfolding sample_cell by (simp add: sample_library_def)
  from t r have "BlendedCost (returned ?row) = ?col" and "BlendedRate (returned ?row) = ?col"
    by blast+
  then have a: "BlendedCost (returned ?row) = 3 / 2" and b: "BlendedRate (returned ?row) = 3 / 2"
    unfolding c by simp_all
  from t n have d: "all_items same_blended (receiver (returned ?rep))"
    and d': "all_items (from_BlendedCost sample_library (headerIdx_of sample_lines) (tl sample_lines))
      (receiver (returned ?rep))" by blast+
  from t r0 obtain li where li: "LineItemID.LineItem (returned ?rowid) = Some li"
    "LineItem0.BlendedCost li = ?col" "LineItem0.BlendedRate li = ?col" by blast
  then have e: "map_option LineItem0.BlendedCost (LineItemID.LineItem (returned ?rowid)) = Some (3 / 2)"
    and e': "map_option LineItem0.BlendedRate (LineItemID.LineItem (returned ?rowid)) = Some (3 / 2)"
    unfolding c by simp_all
  from t m have f: "all_ids same_blended0 (receiver (returned ?ide))"
    and f': "all_ids (from_BlendedCost0 sample_library (headerIdx_of sample_lines) (tl sample_lines))
      (receiver (returned ?ide))" by blast+
  have g: "bucket (receiver (returned ?rep)) (Start (returned ?row)) = [returned ?row]"
    by (simp add: sample_NewReport AddLineItem_def empty_Report_def bucket_def)
  have g': "LineItemIDs (receiver (returned ?ide)) (LineItemID.Start (returned ?rowid))
      = Some [returned ?rowid]"
    by (simp add: sample_main0 AddLineItemID_def NewIdentity_def)
  have h: "is_Return ?rep" "is_Return ?ide" by (simp_all add: sample_NewReport sample_main0)
  from a b d d' e e' f f' g g' h sample_row_LineItem sample_row_LineItemID sample_cell(2)
    sample_rate_cell
  show ?thesis by blast
qed

text \<open>
  C10. \<open>NewLineItem\<close> never reads its availability-zone and usage-amount arguments:
  its result does not depend on them, and every LineItem it constructs has the empty
  string as AvailabilityZone and 0 as UsageAmount.
\<close>

theorem unread_arguments:
  "(NewLineItem lib id' ti az bc br cc le lid lit nf op pc rid tt uc ur uaid ua us ue ut = Inr l \<longrightarrow>
      AvailabilityZone l = [] \<and> UsageAmount l = 0) \<and>
   NewLineItem lib id' ti az bc br cc le lid lit nf op pc rid tt uc ur uaid ua us ue ut
     = NewLineItem lib id' ti az' bc br cc le lid lit nf op pc rid tt uc ur uaid ua' us ue ut"
proof
  show "NewLineItem lib id' ti az bc br cc le lid lit nf op pc rid tt uc ur uaid ua us ue ut = Inr l \<longrightarrow>
      AvailabilityZone l = [] \<and> UsageAmount l = 0"
    using NewLineItem_Inr(3,4)[of lib id' ti az bc br cc le lid lit nf op pc rid tt uc ur uaid ua us ue ut l]
    by blast
  show "NewLineItem lib id' ti az bc br cc le lid lit nf op pc rid tt uc ur uaid ua us ue ut
     = NewLineItem lib id' ti az' bc br cc le lid lit nf op pc rid tt uc ur uaid ua' us ue ut"
    by (rule NewLineItem_unread)
qed

theorem unread_arguments_witness:
  "\<not> isl (NewLineItem sample_library ''id'' ''2020-05-01T00:00:00Z/2020-05-01T01:00:00Z''
      ''us-east-1a'' ''1.5'' ''1.5'' ''USD'' ''AWS'' ''desc'' ''Usage'' '''' ''RunInstances''
      ''AmazonEC2'' ''i-1'' '''' ''2.5'' '''' ''123'' ''7'' ''2020-05-01T00:00:00Z''
      ''2020-05-01T01:00:00Z'' ''BoxUsage'') \<and>
   AvailabilityZone (projr (NewLineItem sample_library ''id''
      ''2020-05-01T00:00:00Z/2020-05-01T01:00:00Z''
      ''us-east-1a'' ''1.5'' ''1.5'' ''USD'' ''AWS'' ''desc'' ''Usage'' '''' ''RunInstances''
      ''AmazonEC2'' ''i-1'' '''' ''2.5'' '''' ''123'' ''7'' ''2020-05-01T00:00:00Z''
      ''2020-05-01T01:00:00Z'' ''BoxUsage'')) = [] \<and>
   UsageAmount (projr (NewLineItem sample_library ''id''
      ''2020-05-01T00:00:00Z/2020-05-01T01:00:00Z''
      ''us-east-1a'' ''1.5'' ''1.5'' ''USD'' ''AWS'' ''desc'' ''Usage'' '''' ''RunInstances''
      ''AmazonEC2'' ''i-1'' '''' ''2.5'' '''' ''123'' ''7'' ''2020-05-01T00:00:00Z''
      ''2020-05-01T01:00:00Z'' ''BoxUsage'')) = 0"
proof -
  let ?r = "NewLineItem sample_library ''id'' ''2020-05-01T00:00:00Z/2020-05-01T01:00:00Z''
      ''us-east-1a'' ''1.5'' ''1.5'' ''USD'' ''AWS'' ''desc'' ''Usage'' '''' ''RunInstances''
      ''AmazonEC2'' ''i-1'' '''' ''2.5'' '''' ''123'' ''7'' ''2020-05-01T00:00:00Z''
      ''2020-05-01T01:00:00Z'' ''BoxUsage''"
  have ok: "\<not> isl ?r"
    unfolding NewLineItem_Inr_iff by (simp add: sample_library_ok)
  then have "?r = Inr (projr ?r)" by simp
  with unread_arguments[of sample_library "''id''" "''2020-05-01T00:00:00Z/2020-05-01T01:00:00Z''"
      "''us-east-1a''" "''1.5''" "''1.5''" "''USD''" "''AWS''" "''desc''" "''Usage''" "''''"
      "''RunInstances''" "''AmazonEC2''" "''i-1''" "''''" "''2.5''" "''''" "''123''" "''7''"
      "''2020-05-01T00:00:00Z''" "''2020-05-01T01:00:00Z''" "''BoxUsage''" "projr ?r"]
  have "AvailabilityZone (projr ?r) = [] \<and> UsageAmount (projr ?r) = 0" by blast
  with ok show ?thesis by blast
qed

end
